theory Spec2Isabelle
  imports
    Complex_Main
    "HOL-Library.Product_Lexorder"
    "HOL-Library.List_Lexorder"
    "HOL-Library.Char_ord"
begin

section \<open>Account records and the rotation scheduler (xhs_account_manager.py)\<close>

text \<open>
  \<^verbatim>\<open>AccountStatus\<close> is an enum whose members carry a string value; an account stores the
  string (\<^verbatim>\<open>status: str\<close>), and every test of the scheduler compares that string with
  the value of a member.
\<close>

datatype AccountStatus = ACTIVE | SUSPICIOUS | LIMITED | BANNED | UNKNOWN

fun status_value :: "AccountStatus \<Rightarrow> string" where
  "status_value ACTIVE = ''active''"
| "status_value SUSPICIOUS = ''suspicious''"
| "status_value LIMITED = ''limited''"
| "status_value BANNED = ''banned''"
| "status_value UNKNOWN = ''unknown''"

record AccountConfig =
  account_id :: string
  username :: string
  password_encrypted :: string
  phone :: string
  status :: string
  created_at :: string
  last_used_at :: string
  total_searches :: int
  consecutive_failures :: int
  last_error :: string
  account_notes :: string

text \<open>
  A naive \<^verbatim>\<open>datetime\<close> is a point of the local time line and a \<^verbatim>\<open>timedelta\<close> a
  difference of two points, both counted in microseconds, which is the resolution of
  the Python types. \<^verbatim>\<open>datetime.fromisoformat\<close> belongs to the standard library: the
  scheduler takes it as the parameter \<open>fromisoformat\<close>, which is \<open>None\<close> where the call raises
  \<^verbatim>\<open>ValueError\<close>. The texts it reads are those that \<^verbatim>\<open>record_usage\<close> writes,
  \<^verbatim>\<open>datetime.now().isoformat()\<close>, naive like the clock of the scheduler.
\<close>

type_synonym datetime = int
type_synonym timedelta = int

datatype error = ValueError | EOFError | LoadError | OverflowError | UnicodeEncodeError

definition hours :: "int \<Rightarrow> timedelta" where
  "hours h = h * 3600000000"

text \<open>
  The time line starts at 1970-01-01T00:00 of the naive calendar. A \<^verbatim>\<open>datetime\<close> lies
  between 0001-01-01T00:00:00 and 9999-12-31T23:59:59.999999, a \<^verbatim>\<open>timedelta\<close> between
  -999999999 days and 999999999 days, 23:59:59.999999; building a \<^verbatim>\<open>timedelta\<close> or adding
  one to a \<^verbatim>\<open>datetime\<close> outside these ranges raises \<^verbatim>\<open>OverflowError\<close>.
\<close>

definition datetime_min :: datetime where
  "datetime_min = - 62135596800000000"

definition datetime_max :: datetime where
  "datetime_max = 253402300799999999"

definition timedelta_min :: timedelta where
  "timedelta_min = - 86399999913600000000"

definition timedelta_max :: timedelta where
  "timedelta_max = 86399999999999999999"

definition plus_timedelta :: "datetime \<Rightarrow> timedelta \<Rightarrow> datetime option" where
  "plus_timedelta t delta =
     (if timedelta_min \<le> delta \<and> delta \<le> timedelta_max
         \<and> datetime_min \<le> t + delta \<and> t + delta \<le> datetime_max
      then Some (t + delta) else None)"

text \<open>
  \<^verbatim>\<open>self.accounts\<close> is a dict from account id to record. Python dicts keep insertion
  order and the scheduler iterates over \<^verbatim>\<open>items()\<close>, so the dict is an association list
  in insertion order.
\<close>

type_synonym accounts = "(string \<times> AccountConfig) list"

subsection \<open>\<^verbatim>\<open>get_next_account\<close>\<close>

text \<open>
  The loop of \<^verbatim>\<open>get_next_account\<close> with its two accumulators. \<open>cd\<close> is
  \<^verbatim>\<open>cooldown_hours\<close> in microseconds; \<^verbatim>\<open>last_used + timedelta(hours=cooldown_hours)\<close>
  is \<open>plus_timedelta\<close>.
\<close>

fun scan_accounts ::
  "(string \<Rightarrow> datetime option) \<Rightarrow> bool \<Rightarrow> timedelta \<Rightarrow> datetime \<Rightarrow> accounts \<Rightarrow>
   AccountConfig list \<Rightarrow> (AccountConfig \<times> datetime) list \<Rightarrow>
   error + (AccountConfig list \<times> (AccountConfig \<times> datetime) list)" where
  "scan_accounts fromisoformat respect_cooldown cd now [] available cooling = Inr (available, cooling)"
| "scan_accounts fromisoformat respect_cooldown cd now ((acc_id, acc) # rest) available cooling =
     (if status acc \<in> set [status_value BANNED, status_value LIMITED]
      then scan_accounts fromisoformat respect_cooldown cd now rest available cooling
      else if respect_cooldown \<and> last_used_at acc \<noteq> []
      then (case fromisoformat (last_used_at acc) of
              None \<Rightarrow> Inl ValueError
            | Some last_used \<Rightarrow>
                (case plus_timedelta last_used cd of
                   None \<Rightarrow> Inl OverflowError
                 | Some cooldown_end \<Rightarrow>
                     if now < cooldown_end
                     then scan_accounts fromisoformat respect_cooldown cd now rest
                            available (cooling @ [(acc, cooldown_end)])
                     else scan_accounts fromisoformat respect_cooldown cd now rest
                            (available @ [acc]) cooling))
      else scan_accounts fromisoformat respect_cooldown cd now rest (available @ [acc]) cooling)"

text \<open>The sort key of the available accounts; \<^verbatim>\<open>x.last_used_at or ""\<close> is the string itself.\<close>

definition next_key :: "AccountConfig \<Rightarrow> bool \<times> int \<times> string" where
  "next_key x = (status x \<noteq> status_value ACTIVE, total_searches x, last_used_at x)"

text \<open>
  \<^verbatim>\<open>list.sort\<close> is stable and so is \<open>sort_key\<close>; the head is read only from a list that
  the preceding test found non-empty.
\<close>

definition get_next_account ::
  "(string \<Rightarrow> datetime option) \<Rightarrow> bool \<Rightarrow> timedelta \<Rightarrow> datetime \<Rightarrow> accounts \<Rightarrow>
   error + AccountConfig option" where
  "get_next_account fromisoformat respect_cooldown cd now accs =
     (if accs = [] then Inr None
      else case scan_accounts fromisoformat respect_cooldown cd now accs [] [] of
             Inl e \<Rightarrow> Inl e
           | Inr (available, cooling) \<Rightarrow>
               if available \<noteq> [] then Inr (Some (hd (sort_key next_key available)))
               else if cooling \<noteq> [] then Inr (Some (fst (hd (sort_key snd cooling))))
               else Inr None)"

subsection \<open>\<^verbatim>\<open>get_account_for_search\<close>\<close>

text \<open>
  The score is a Python float as soon as the remaining cooldown is added; it is modelled
  by the exact rational it approximates. \<^verbatim>\<open>total_seconds() / 60\<close> of a difference of
  \<open>d\<close> microseconds is \<open>d / 1000000 / 60\<close>.
\<close>

definition cooldown_remaining ::
  "(string \<Rightarrow> datetime option) \<Rightarrow> datetime \<Rightarrow> AccountConfig \<Rightarrow> error + rat" where
  "cooldown_remaining fromisoformat now acc =
     (if last_used_at acc \<noteq> []
      then (case fromisoformat (last_used_at acc) of
              None \<Rightarrow> Inl ValueError
            | Some last_used \<Rightarrow>
                (let cooldown_end = last_used + hours 1 in
                 if now < cooldown_end
                 then Inr (of_int (cooldown_end - now) / 1000000 / 60)
                 else Inr 0))
      else Inr 0)"

definition search_score :: "AccountConfig \<Rightarrow> rat \<Rightarrow> rat" where
  "search_score acc remaining =
     (let score = 0;
          score = score + of_int (total_searches acc * 10);
          score = score + of_int (consecutive_failures acc * 50);
          score = score + remaining
      in if status acc \<noteq> status_value ACTIVE then score + 100 else score)"

fun collect_candidates ::
  "(string \<Rightarrow> datetime option) \<Rightarrow> datetime \<Rightarrow> accounts \<Rightarrow> (AccountConfig \<times> rat) list \<Rightarrow>
   error + (AccountConfig \<times> rat) list" where
  "collect_candidates fromisoformat now [] candidates = Inr candidates"
| "collect_candidates fromisoformat now ((acc_id, acc) # rest) candidates =
     (if status acc = status_value BANNED then collect_candidates fromisoformat now rest candidates
      else if consecutive_failures acc \<ge> 3 then collect_candidates fromisoformat now rest candidates
      else (case cooldown_remaining fromisoformat now acc of
              Inl e \<Rightarrow> Inl e
            | Inr remaining \<Rightarrow>
                collect_candidates fromisoformat now rest
                  (candidates @ [(acc, search_score acc remaining)])))"

definition get_account_for_search ::
  "(string \<Rightarrow> datetime option) \<Rightarrow> datetime \<Rightarrow> accounts \<Rightarrow> error + AccountConfig option" where
  "get_account_for_search fromisoformat now accs =
     (if accs = [] then Inr None
      else case collect_candidates fromisoformat now accs [] of
             Inl e \<Rightarrow> Inl e
           | Inr candidates \<Rightarrow>
               if candidates = [] then Inr None
               else Inr (Some (fst (hd (sort_key snd candidates)))))"

text \<open>A stored record that was never used and never failed, with a given id and status.\<close>

definition sample_account :: "string \<Rightarrow> string \<Rightarrow> AccountConfig" where
  "sample_account i st =
     \<lparr>account_id = i, username = ''13800138000'', password_encrypted = ''gAAAAA'',
      phone = [], status = st, created_at = ''2025-01-01T08:00:00'', last_used_at = [],
      total_searches = 0, consecutive_failures = 0, last_error = [], account_notes = []\<rparr>"

text \<open>
  The words of the specification for \<^verbatim>\<open>pickNext\<close>: the accounts that are neither BANNED
  nor LIMITED are split into those within their cooldown (used, and the cooldown that
  started at the last use has not ended at \<open>now\<close>) and the available ones (all others:
  never used, or the cooldown has ended).
\<close>

definition eligible :: "AccountConfig \<Rightarrow> bool" where
  "eligible a = (status a \<noteq> status_value BANNED \<and> status a \<noteq> status_value LIMITED)"

definition within_cooldown :: "(string \<Rightarrow> datetime option) \<Rightarrow> timedelta \<Rightarrow> datetime \<Rightarrow> AccountConfig \<Rightarrow> bool" where
  "within_cooldown fromisoformat cd now a =
     (last_used_at a \<noteq> [] \<and>
      (case fromisoformat (last_used_at a) of None \<Rightarrow> False | Some last_used \<Rightarrow> now < last_used + cd))"

definition cooldown_expiry :: "(string \<Rightarrow> datetime option) \<Rightarrow> timedelta \<Rightarrow> AccountConfig \<Rightarrow> datetime" where
  "cooldown_expiry fromisoformat cd a = the (fromisoformat (last_used_at a)) + cd"

text \<open>
  The order of the specification on available accounts, written out: an ACTIVE account
  comes before one that is not; among accounts of the same kind the one with fewer uses
  comes first; among those with equal uses the one whose last use is earlier (as text,
  never used being the empty text) comes first. \<open>precedes a b\<close> says that \<open>a\<close> comes no
  later than \<open>b\<close>.
\<close>

definition precedes :: "AccountConfig \<Rightarrow> AccountConfig \<Rightarrow> bool" where
  "precedes a b =
     ((status a = status_value ACTIVE \<and> status b \<noteq> status_value ACTIVE)
      \<or> ((status a = status_value ACTIVE) = (status b = status_value ACTIVE)
          \<and> (total_searches a < total_searches b
              \<or> (total_searches a = total_searches b \<and> last_used_at a \<le> last_used_at b))))"

text \<open>
  The accounts that do not make \<^verbatim>\<open>get_next_account\<close> raise: the stored
  \<^verbatim>\<open>last_used_at\<close> is readable and the cooldown can be added to it.
\<close>

definition cooldown_computable ::
  "(string \<Rightarrow> datetime option) \<Rightarrow> timedelta \<Rightarrow> AccountConfig \<Rightarrow> bool" where
  "cooldown_computable fromisoformat cd a =
     (case fromisoformat (last_used_at a) of
        None \<Rightarrow> False
      | Some last_used \<Rightarrow> plus_timedelta last_used cd \<noteq> None)"


definition rotation_fromisoformat :: "string \<Rightarrow> datetime option" where
  "rotation_fromisoformat =
     (\<lambda>s. if s = ''2025-01-01T07:00:00'' then Some 1735714800000000
          else if s = ''2025-01-01T08:00:00'' then Some 1735718400000000
          else if s = ''2025-01-01T09:30:00'' then Some 1735723800000000
          else None)"

definition rotation_registry :: accounts where
  "rotation_registry =
    [(''acc_001'', sample_account ''acc_001'' (status_value LIMITED)),
     (''acc_002'', (sample_account ''acc_002'' (status_value ACTIVE))\<lparr>last_used_at := ''2025-01-01T09:30:00'', total_searches := 1\<rparr>),
     (''acc_003'', (sample_account ''acc_003'' (status_value SUSPICIOUS))\<lparr>total_searches := 0\<rparr>),
     (''acc_004'', (sample_account ''acc_004'' (status_value ACTIVE))\<lparr>total_searches := 7\<rparr>),
     (''acc_005'', (sample_account ''acc_005'' (status_value ACTIVE))\<lparr>last_used_at := ''2025-01-01T08:00:00'', total_searches := 5\<rparr>),
     (''acc_006'', (sample_account ''acc_006'' (status_value ACTIVE))\<lparr>last_used_at := ''2025-01-01T07:00:00'', total_searches := 5\<rparr>),
     (''acc_007'', (sample_account ''acc_007'' (status_value ACTIVE))\<lparr>last_used_at := ''2025-01-01T07:00:00'', total_searches := 5, phone := ''13700137000''\<rparr>)]"

definition cooling_registry :: accounts where
  "cooling_registry =
    [(''acc_001'', sample_account ''acc_001'' (status_value BANNED)),
     (''acc_002'', (sample_account ''acc_002'' (status_value ACTIVE))\<lparr>last_used_at := ''2025-01-01T09:30:00'', total_searches := 1\<rparr>),
     (''acc_003'', (sample_account ''acc_003'' (status_value SUSPICIOUS))\<lparr>last_used_at := ''2025-01-01T08:00:00'', total_searches := 9\<rparr>)]"






subsection \<open>Python strings and UTF-8\<close>

text \<open>
  A Python \<^verbatim>\<open>str\<close> is a sequence of code points, and may hold a surrogate (0xD800 to
  0xDFFF) on its own; \<open>ustr\<close> writes a \<^verbatim>\<open>str\<close> of code points below 256. A \<^verbatim>\<open>bytes\<close>
  is a sequence of 8-bit values. \<^verbatim>\<open>s.encode()\<close> is UTF-8 and raises
  \<^verbatim>\<open>UnicodeEncodeError\<close> at a surrogate; \<^verbatim>\<open>b.decode()\<close> is the strict UTF-8 decoder,
  which refuses a stray or missing continuation byte, an overlong form, an encoded
  surrogate and a value above 0x10FFFF. \<open>None\<close> stands for the exception. The code
  points of a \<^verbatim>\<open>str\<close> lie below 0x110000; those that are no surrogate are the scalar
  values.
\<close>

type_synonym pystr = "nat list"

type_synonym bytes = "char list"

definition ustr :: "string \<Rightarrow> pystr" where
  "ustr s = map of_char s"

definition surrogate :: "nat \<Rightarrow> bool" where
  "surrogate c = (0xD800 \<le> c \<and> c \<le> 0xDFFF)"

definition scalar_value :: "nat \<Rightarrow> bool" where
  "scalar_value c = (c < 0x110000 \<and> \<not> surrogate c)"

definition encode_char :: "nat \<Rightarrow> bytes option" where
  "encode_char c =
     (if c < 0x80 then Some [char_of c]
      else if c < 0x800 then Some [char_of (0xC0 + c div 0x40), char_of (0x80 + c mod 0x40)]
      else if c < 0x10000 then
        (if surrogate c then None
         else Some [char_of (0xE0 + c div 0x1000), char_of (0x80 + c div 0x40 mod 0x40),
                    char_of (0x80 + c mod 0x40)])
      else if c < 0x110000 then
        Some [char_of (0xF0 + c div 0x40000), char_of (0x80 + c div 0x1000 mod 0x40),
              char_of (0x80 + c div 0x40 mod 0x40), char_of (0x80 + c mod 0x40)]
      else None)"

fun encode :: "pystr \<Rightarrow> bytes option" where
  "encode [] = Some []"
| "encode (c # s) =
     (case encode_char c of
        None \<Rightarrow> None
      | Some b \<Rightarrow> map_option ((@) b) (encode s))"

definition continuation :: "char \<Rightarrow> bool" where
  "continuation b = (0x80 \<le> (of_char b :: nat) \<and> (of_char b :: nat) < 0xC0)"

definition low_bits :: "char \<Rightarrow> nat" where
  "low_bits b = of_char b - 0x80"

fun decode :: "bytes \<Rightarrow> pystr option" where
  "decode [] = Some []"
| "decode (b # bs) =
     (let a = (of_char b :: nat) in
      if a < 0x80 then map_option ((#) a) (decode bs)
      else if a < 0xC2 then None
      else if a < 0xE0 then
        (case bs of
           b1 # r \<Rightarrow>
             if continuation b1
             then map_option ((#) ((a - 0xC0) * 0x40 + low_bits b1)) (decode r)
             else None
         | _ \<Rightarrow> None)
      else if a < 0xF0 then
        (case bs of
           b1 # b2 # r \<Rightarrow>
             (let c = ((a - 0xE0) * 0x40 + low_bits b1) * 0x40 + low_bits b2 in
              if continuation b1 \<and> continuation b2 \<and> 0x800 \<le> c \<and> \<not> surrogate c
              then map_option ((#) c) (decode r)
              else None)
         | _ \<Rightarrow> None)
      else if a < 0xF5 then
        (case bs of
           b1 # b2 # b3 # r \<Rightarrow>
             (let c = (((a - 0xF0) * 0x40 + low_bits b1) * 0x40 + low_bits b2) * 0x40 + low_bits b3 in
              if continuation b1 \<and> continuation b2 \<and> continuation b3
                 \<and> 0x10000 \<le> c \<and> c < 0x110000
              then map_option ((#) c) (decode r)
              else None)
         | _ \<Rightarrow> None)
      else None)"

subsection \<open>The vault and the registry\<close>

text \<open>
  \<^verbatim>\<open>EncryptionManager\<close> wraps the \<^verbatim>\<open>cryptography\<close> and \<^verbatim>\<open>base64\<close> packages, which are
  not part of the repository. Their operations are parameters: \<open>derive_key\<close> is
  \<^verbatim>\<open>_derive_key\<close> from the encoded password on, with the persisted salt, followed by
  \<^verbatim>\<open>Fernet(key)\<close>; \<open>fernet_encrypt\<close> is \<^verbatim>\<open>Fernet.encrypt\<close> followed by
  \<^verbatim>\<open>urlsafe_b64encode\<close>, whose ASCII output is the ciphertext; \<open>fernet_decrypt\<close> is
  \<^verbatim>\<open>urlsafe_b64decode\<close> followed by \<^verbatim>\<open>Fernet.decrypt\<close>, \<open>None\<close> where one of them
  raises. The initialisation vector and the time that \<^verbatim>\<open>Fernet.encrypt\<close> draws are
  fixed by the parameter.
\<close>

record 'k crypto =
  derive_key :: "bytes \<Rightarrow> 'k"
  fernet_encrypt :: "'k \<Rightarrow> bytes \<Rightarrow> string"
  fernet_decrypt :: "'k \<Rightarrow> string \<Rightarrow> bytes option"

text \<open>
  The accounts file as \<^verbatim>\<open>_load_accounts\<close> sees it: absent; present but not loadable
  (\<^verbatim>\<open>yaml.safe_load\<close> or \<^verbatim>\<open>AccountConfig(**acc_data)\<close> raises); present without an
  \<^verbatim>\<open>accounts\<close> entry; or holding a list of records.
\<close>

datatype accounts_yaml = Missing | Unreadable | NoAccounts | Stored "AccountConfig list"

record 'k AccountManager =
  accounts :: accounts
  master_password_set :: bool
  cipher :: "'k option"
  salt_file_exists :: bool
  accounts_file :: accounts_yaml

text \<open>
  \<^verbatim>\<open>encrypt\<close> tests the cipher, then encodes the plaintext, outside any \<^verbatim>\<open>try\<close>.
  \<^verbatim>\<open>decrypt\<close> turns every exception of its \<^verbatim>\<open>try\<close> block, the one of the final
  \<^verbatim>\<open>decode\<close> included, into \<^verbatim>\<open>ValueError\<close>.
\<close>

definition encrypt :: "'k crypto \<Rightarrow> 'k AccountManager \<Rightarrow> pystr \<Rightarrow> error + string" where
  "encrypt cr m plaintext =
     (case cipher m of
        None \<Rightarrow> Inl ValueError
      | Some k \<Rightarrow>
          (case encode plaintext of
             None \<Rightarrow> Inl UnicodeEncodeError
           | Some data \<Rightarrow> Inr (fernet_encrypt cr k data)))"

definition decrypt :: "'k crypto \<Rightarrow> 'k AccountManager \<Rightarrow> string \<Rightarrow> error + pystr" where
  "decrypt cr m ciphertext =
     (case cipher m of
        None \<Rightarrow> Inl ValueError
      | Some k \<Rightarrow>
          (case fernet_decrypt cr k ciphertext of
             None \<Rightarrow> Inl ValueError
           | Some decrypted \<Rightarrow>
               (case decode decrypted of
                  None \<Rightarrow> Inl ValueError
                | Some plaintext \<Rightarrow> Inr plaintext)))"

text \<open>
  \<^verbatim>\<open>set_master_password\<close>: \<^verbatim>\<open>_derive_key\<close> reads or creates the salt, then encodes the
  password.
\<close>

definition set_master_password ::
  "'k crypto \<Rightarrow> pystr \<Rightarrow> 'k AccountManager \<Rightarrow> error + 'k AccountManager" where
  "set_master_password cr password m =
     (case encode password of
        None \<Rightarrow> Inl UnicodeEncodeError
      | Some b \<Rightarrow> Inr (m\<lparr>cipher := Some (derive_key cr b), salt_file_exists := True\<rparr>))"

text \<open>\<^verbatim>\<open>self.accounts[account_id] = account\<close>: an existing key keeps its place.\<close>

fun dict_set :: "accounts \<Rightarrow> string \<Rightarrow> AccountConfig \<Rightarrow> accounts" where
  "dict_set [] k v = [(k, v)]"
| "dict_set ((k', v') # d) k v = (if k' = k then (k, v) # d else (k', v') # dict_set d k v)"

definition dict_del :: "accounts \<Rightarrow> string \<Rightarrow> accounts" where
  "dict_del d k = filter (\<lambda>(k', v). k' \<noteq> k) d"

definition save_accounts :: "'k AccountManager \<Rightarrow> 'k AccountManager" where
  "save_accounts m = m\<lparr>accounts_file := Stored (map snd (accounts m))\<rparr>"

definition load_accounts :: "'k AccountManager \<Rightarrow> error + 'k AccountManager" where
  "load_accounts m =
     (case accounts_file m of
        Missing \<Rightarrow> Inr (m\<lparr>accounts := []\<rparr>)
      | Unreadable \<Rightarrow> Inl LoadError
      | NoAccounts \<Rightarrow> Inr (m\<lparr>accounts := []\<rparr>)
      | Stored recs \<Rightarrow> Inr (m\<lparr>accounts := foldl (\<lambda>d acc. dict_set d (account_id acc) acc) [] recs\<rparr>))"

text \<open>
  The prompts of \<^verbatim>\<open>setup_master_password\<close> read \<^verbatim>\<open>getpass\<close>; the answers typed are
  the list \<open>typed\<close>, and reading past its end is the \<^verbatim>\<open>EOFError\<close> of \<^verbatim>\<open>getpass\<close>.
\<close>

fun new_master_password :: "pystr list \<Rightarrow> error + pystr" where
  "new_master_password [] = Inl EOFError"
| "new_master_password [password] = Inl EOFError"
| "new_master_password (password # password_confirm # typed) =
     (if length password < 6 then new_master_password (password_confirm # typed)
      else if password \<noteq> password_confirm then new_master_password typed
      else Inr password)"

definition setup_master_password ::
  "'k crypto \<Rightarrow> bool \<Rightarrow> pystr list \<Rightarrow> 'k AccountManager \<Rightarrow> error + ('k AccountManager \<times> pystr)" where
  "setup_master_password cr new_password typed m =
     (if new_password \<or> \<not> salt_file_exists m
      then (case new_master_password typed of
              Inl e \<Rightarrow> Inl e
            | Inr password \<Rightarrow>
                (case set_master_password cr password m of
                   Inl e \<Rightarrow> Inl e
                 | Inr m \<Rightarrow> Inr (m\<lparr>master_password_set := True\<rparr>, password)))
      else (case typed of
              [] \<Rightarrow> Inl EOFError
            | password # _ \<Rightarrow>
                (case set_master_password cr password m of
                   Inl e \<Rightarrow> Inl e
                 | Inr m \<Rightarrow>
                     (case load_accounts m of
                        Inr m \<Rightarrow> Inr (m\<lparr>master_password_set := True\<rparr>, password)
                      | Inl e \<Rightarrow> Inr (m, [])))))"

text \<open>\<^verbatim>\<open>f"acc_{n:03d}"\<close> for a count \<open>n\<close>: decimal digits, padded with zeros to width three.\<close>

fun decimal :: "nat \<Rightarrow> string" where
  "decimal n = (if n < 10 then [''0123456789'' ! n]
                else decimal (n div 10) @ [''0123456789'' ! (n mod 10)])"

declare decimal.simps [simp del]

definition format_03d :: "nat \<Rightarrow> string" where
  "format_03d n = replicate (3 - length (decimal n)) (CHR ''0'') @ decimal n"

definition create :: "string \<Rightarrow> string \<Rightarrow> string \<Rightarrow> pystr \<Rightarrow> string \<Rightarrow> string \<Rightarrow> AccountConfig" where
  "create now_iso acc_id user password ph nts =
     \<lparr>account_id = acc_id, username = user, password_encrypted = [], phone = ph,
      status = status_value UNKNOWN, created_at = now_iso, last_used_at = [],
      total_searches = 0, consecutive_failures = 0, last_error = [], account_notes = nts\<rparr>"

definition add_account ::
  "'k crypto \<Rightarrow> string \<Rightarrow> 'k AccountManager \<Rightarrow> string \<Rightarrow> pystr \<Rightarrow> string \<Rightarrow> string \<Rightarrow>
   error + ('k AccountManager \<times> string)" where
  "add_account cr now_iso m user password ph nts =
     (if \<not> master_password_set m then Inl ValueError
      else
        (let acc_id = ''acc_'' @ format_03d (length (accounts m) + 1);
             account = create now_iso acc_id user password ph nts
         in case encrypt cr m password of
              Inl e \<Rightarrow> Inl e
            | Inr c \<Rightarrow>
                Inr (save_accounts (m\<lparr>accounts := dict_set (accounts m) acc_id (account\<lparr>password_encrypted := c\<rparr>)\<rparr>),
                     acc_id)))"

definition remove_account :: "'k AccountManager \<Rightarrow> string \<Rightarrow> 'k AccountManager \<times> bool" where
  "remove_account m acc_id =
     (if acc_id \<in> fst ` set (accounts m)
      then (save_accounts (m\<lparr>accounts := dict_del (accounts m) acc_id\<rparr>), True)
      else (m, False))"

definition get_password :: "'k crypto \<Rightarrow> 'k AccountManager \<Rightarrow> string \<Rightarrow> error + pystr" where
  "get_password cr m acc_id =
     (if \<not> master_password_set m then Inl ValueError
      else case map_of (accounts m) acc_id of
             None \<Rightarrow> Inl ValueError
           | Some account \<Rightarrow> decrypt cr m (password_encrypted account))"

definition fresh_manager :: "string AccountManager" where
  "fresh_manager =
     \<lparr>accounts = [], master_password_set = True, cipher = Some ''key'',
      salt_file_exists = True, accounts_file = Missing\<rparr>"

text \<open>
  A cipher for the concrete instances. The key is the encoded master secret itself. A
  token spells its key, each byte behind the mark \<^verbatim>\<open>k\<close>, then the mark \<^verbatim>\<open>p\<close> and the
  data; decryption reads the token against its own key and fails under any other.
\<close>

fun sample_encrypt :: "string \<Rightarrow> bytes \<Rightarrow> string" where
  "sample_encrypt [] data = CHR ''p'' # data"
| "sample_encrypt (c # key) data = CHR ''k'' # c # sample_encrypt key data"

fun sample_decrypt :: "string \<Rightarrow> string \<Rightarrow> bytes option" where
  "sample_decrypt [] (x # token) = (if x = CHR ''p'' then Some token else None)"
| "sample_decrypt (c # key) (x # y # token) =
     (if x = CHR ''k'' \<and> y = c then sample_decrypt key token else None)"
| "sample_decrypt key token = None"

definition sample_crypto :: "string crypto" where
  "sample_crypto =
     \<lparr>derive_key = (\<lambda>password. password),
      fernet_encrypt = sample_encrypt,
      fernet_decrypt = sample_decrypt\<rparr>"

definition stored_vault :: "string AccountManager" where
  "stored_vault =
     \<lparr>accounts = [], master_password_set = False, cipher = None, salt_file_exists = True,
      accounts_file = Stored
        [(sample_account ''acc_001'' (status_value ACTIVE))
           \<lparr>password_encrypted := fernet_encrypt sample_crypto ''master-secret'' ''hunter2''\<rparr>]\<rparr>"

text \<open>
  The stored vault unlocked with its master secret and with another one, and a plaintext
  with characters of one, two, three and four bytes.
\<close>

definition unlocked_vault :: "string AccountManager" where
  "unlocked_vault = stored_vault\<lparr>cipher := Some ''master-secret''\<rparr>"

definition foreign_vault :: "string AccountManager" where
  "foreign_vault = stored_vault\<lparr>cipher := Some ''wrong-secret''\<rparr>"

definition secret_text :: pystr where
  "secret_text = [0x5BC6, 0x7801, 0x1F511, 0x41, 0xE9]"

section \<open>Timestamps and the time window (xhs_browser_monitor.py)\<close>

subsection \<open>Python strings and \<^verbatim>\<open>int()\<close>\<close>

text \<open>
  The six markers of relative time, in the order the source tests them: "just now",
  "minutes ago", "hours ago", "days ago", "yesterday", "the day before yesterday".
\<close>

definition gang_gang :: pystr where
  "gang_gang = [0x521A, 0x521A]"

definition fen_zhong_qian :: pystr where
  "fen_zhong_qian = [0x5206, 0x949F, 0x524D]"

definition xiao_shi_qian :: pystr where
  "xiao_shi_qian = [0x5C0F, 0x65F6, 0x524D]"

definition tian_qian :: pystr where
  "tian_qian = [0x5929, 0x524D]"

definition zuo_tian :: pystr where
  "zuo_tian = [0x6628, 0x5929]"

definition qian_tian :: pystr where
  "qian_tian = [0x524D, 0x5929]"

text \<open>\<^verbatim>\<open>sub in s\<close> and \<^verbatim>\<open>s.replace(sub, "")\<close>.\<close>

fun starts_with :: "pystr \<Rightarrow> pystr \<Rightarrow> bool" where
  "starts_with [] s = True"
| "starts_with (p # ps) [] = False"
| "starts_with (p # ps) (c # cs) = (p = c \<and> starts_with ps cs)"

fun contains :: "pystr \<Rightarrow> pystr \<Rightarrow> bool" where
  "contains sub [] = (sub = [])"
| "contains sub (c # cs) = (starts_with sub (c # cs) \<or> contains sub cs)"

fun remove_all :: "pystr \<Rightarrow> pystr \<Rightarrow> pystr" where
  "remove_all sub [] = []"
| "remove_all sub (c # cs) =
     (if sub \<noteq> [] \<and> starts_with sub (c # cs)
      then remove_all sub (drop (length sub - 1) cs)
      else c # remove_all sub cs)"

text \<open>
  The character classes of the interpreter (Unicode 14.0). The decimal digits come in
  runs of ten, \<open>decimal_zeros\<close> lists the digit zero of each run; they are what
  \<^verbatim>\<open>int()\<close> reads as a digit and what \<^verbatim>\<open>\d\<close> matches. \<open>unicode_space\<close> is the white
  space of \<^verbatim>\<open>str.isspace\<close> and of \<^verbatim>\<open>\s\<close>.
\<close>

definition decimal_zeros :: "nat list" where
  "decimal_zeros =
     [0x30, 0x660, 0x6F0, 0x7C0, 0x966, 0x9E6, 0xA66, 0xAE6, 0xB66, 0xBE6, 0xC66, 0xCE6,
      0xD66, 0xDE6, 0xE50, 0xED0, 0xF20, 0x1040, 0x1090, 0x17E0, 0x1810, 0x1946, 0x19D0,
      0x1A80, 0x1A90, 0x1B50, 0x1BB0, 0x1C40, 0x1C50, 0xA620, 0xA8D0, 0xA900, 0xA9D0,
      0xA9F0, 0xAA50, 0xABF0, 0xFF10, 0x104A0, 0x10D30, 0x11066, 0x110F0, 0x11136,
      0x111D0, 0x112F0, 0x11450, 0x114D0, 0x11650, 0x116C0, 0x11730, 0x118E0, 0x11950,
      0x11C50, 0x11D50, 0x11DA0, 0x16A60, 0x16AC0, 0x16B50, 0x1D7CE, 0x1D7D8, 0x1D7E2,
      0x1D7EC, 0x1D7F6, 0x1E140, 0x1E2F0, 0x1E950, 0x1FBF0]"

definition decimal_value :: "nat \<Rightarrow> int option" where
  "decimal_value c =
     map_option (\<lambda>z. int (c - z)) (find (\<lambda>z. z \<le> c \<and> c \<le> z + 9) decimal_zeros)"

definition unicode_space :: "nat \<Rightarrow> bool" where
  "unicode_space c =
     (c \<in> set [0x09, 0x0A, 0x0B, 0x0C, 0x0D, 0x1C, 0x1D, 0x1E, 0x1F, 0x20, 0x85, 0xA0,
                0x1680, 0x2000, 0x2001, 0x2002, 0x2003, 0x2004, 0x2005, 0x2006, 0x2007,
                0x2008, 0x2009, 0x200A, 0x2028, 0x2029, 0x202F, 0x205F, 0x3000])"

text \<open>
  \<^verbatim>\<open>int(s)\<close> on a \<^verbatim>\<open>str\<close>. White space is stripped from both ends: the six ASCII
  characters of C's \<^verbatim>\<open>isspace\<close>, and the white space beyond ASCII (the separators
  0x1C to 0x1F are not stripped). An optional sign follows, then decimal digits with
  single underscores between them; more than 4300 digits (the default limit of the
  interpreter) are refused. Anything else is the \<^verbatim>\<open>ValueError\<close>, \<open>None\<close>.
\<close>

definition int_space :: "nat \<Rightarrow> bool" where
  "int_space c = (c \<in> set [0x09, 0x0A, 0x0B, 0x0C, 0x0D, 0x20] \<or> (127 \<le> c \<and> unicode_space c))"

definition strip :: "pystr \<Rightarrow> pystr" where
  "strip s = rev (dropWhile int_space (rev (dropWhile int_space s)))"

fun py_digits :: "int \<Rightarrow> pystr \<Rightarrow> int option" where
  "py_digits acc [] = None"
| "py_digits acc [c] =
     (case decimal_value c of None \<Rightarrow> None | Some d \<Rightarrow> Some (acc * 10 + d))"
| "py_digits acc (c # c' # cs) =
     (case decimal_value c of
        None \<Rightarrow> None
      | Some d \<Rightarrow>
          if c' = of_char (CHR ''_'') then py_digits (acc * 10 + d) cs
          else py_digits (acc * 10 + d) (c' # cs))"

definition py_int :: "pystr \<Rightarrow> int option" where
  "py_int s =
     (case strip s of
        [] \<Rightarrow> None
      | c # cs \<Rightarrow>
          if 4300 < length (filter (\<lambda>c. decimal_value c \<noteq> None) (c # cs)) then None
          else if c = of_char (CHR ''-'') then map_option uminus (py_digits 0 cs)
          else if c = of_char (CHR ''+'') then py_digits 0 cs
          else py_digits 0 (c # cs))"


subsection \<open>Naive datetimes\<close>

text \<open>
  A naive \<^verbatim>\<open>datetime\<close> by its fields, with the calendar arithmetic of the standard
  library (\<^verbatim>\<open>_is_leap\<close>, \<^verbatim>\<open>_days_before_year\<close>, \<^verbatim>\<open>_days_in_month\<close>,
  \<^verbatim>\<open>_days_before_month\<close>, \<^verbatim>\<open>_ymd2ord\<close>). \<open>to_micro\<close> places it on the time line of
  the scheduler, in microseconds from 1970-01-01T00:00 of the same naive calendar.
  \<open>make_datetime\<close> is the constructor with its range checks, \<open>None\<close> for its
  \<^verbatim>\<open>ValueError\<close>.
\<close>

record pydatetime =
  year :: int
  month :: int
  day :: int
  hour :: int
  minute :: int
  second :: int
  microsecond :: int

definition is_leap :: "int \<Rightarrow> bool" where
  "is_leap y = (y mod 4 = 0 \<and> (y mod 100 \<noteq> 0 \<or> y mod 400 = 0))"

definition days_before_year :: "int \<Rightarrow> int" where
  "days_before_year y = (y - 1) * 365 + (y - 1) div 4 - (y - 1) div 100 + (y - 1) div 400"

definition days_in_month :: "int \<Rightarrow> int \<Rightarrow> int" where
  "days_in_month y m =
     (if m = 2 \<and> is_leap y then 29
      else [31, 28, 31, 30, 31, 30, 31, 31, 30, 31, 30, 31] ! nat (m - 1))"

definition days_before_month :: "int \<Rightarrow> int \<Rightarrow> int" where
  "days_before_month y m =
     [0, 31, 59, 90, 120, 151, 181, 212, 243, 273, 304, 334] ! nat (m - 1)
       + (if m > 2 \<and> is_leap y then 1 else 0)"

definition ymd2ord :: "int \<Rightarrow> int \<Rightarrow> int \<Rightarrow> int" where
  "ymd2ord y m d = days_before_year y + days_before_month y m + d"

definition make_datetime :: "int \<Rightarrow> int \<Rightarrow> int \<Rightarrow> int \<Rightarrow> int \<Rightarrow> pydatetime option" where
  "make_datetime y m d H M =
     (if 1 \<le> y \<and> y \<le> 9999 \<and> 1 \<le> m \<and> m \<le> 12 \<and> 1 \<le> d \<and> d \<le> days_in_month y m
         \<and> 0 \<le> H \<and> H \<le> 23 \<and> 0 \<le> M \<and> M \<le> 59
      then Some \<lparr>year = y, month = m, day = d, hour = H, minute = M, second = 0, microsecond = 0\<rparr>
      else None)"

definition replace_year :: "pydatetime \<Rightarrow> int \<Rightarrow> pydatetime option" where
  "replace_year d y =
     (if 1 \<le> y \<and> y \<le> 9999 \<and> day d \<le> days_in_month y (month d)
      then Some (d\<lparr>year := y\<rparr>) else None)"

definition to_micro :: "pydatetime \<Rightarrow> datetime" where
  "to_micro d =
     (((ymd2ord (year d) (month d) (day d) - 719163) * 86400
        + hour d * 3600 + minute d * 60 + second d) * 1000000 + microsecond d)"

text \<open>
  \<^verbatim>\<open>now - timedelta(...)\<close> raises \<^verbatim>\<open>OverflowError\<close> outside 0001-01-01 .. 9999-12-31
  (a \<^verbatim>\<open>timedelta\<close> too large to build lies outside as well).
  \<^verbatim>\<open>d.timestamp()\<close> of a naive datetime depends on the zone of the machine: it is the
  parameter \<open>posix\<close>, from the naive time line to microseconds since the epoch,
  \<open>None\<close> where the platform cannot convert. \<^verbatim>\<open>int(x * 1000)\<close> truncates towards
  zero; the float is modelled by the exact value.
\<close>

definition minus_timedelta :: "datetime \<Rightarrow> timedelta \<Rightarrow> datetime option" where
  "minus_timedelta t delta =
     (if datetime_min \<le> t - delta \<and> t - delta \<le> datetime_max then Some (t - delta) else None)"

definition to_ms :: "int \<Rightarrow> int" where
  "to_ms us = (if 0 \<le> us then us div 1000 else - ((- us) div 1000))"

definition timestamp_ms :: "(datetime \<Rightarrow> int option) \<Rightarrow> datetime \<Rightarrow> int option" where
  "timestamp_ms posix t = map_option to_ms (posix t)"

subsection \<open>\<^verbatim>\<open>datetime.strptime\<close>\<close>

text \<open>
  \<^verbatim>\<open>strptime\<close> turns a format into a regular expression, one group per directive:
  \<^verbatim>\<open>%Y\<close> is \<^verbatim>\<open>\d\d\d\d\<close>, \<^verbatim>\<open>%m\<close> is \<^verbatim>\<open>1[0-2]|0[1-9]|[1-9]\<close>, \<^verbatim>\<open>%d\<close> is
  \<^verbatim>\<open>3[0-1]|[1-2]\d|0[1-9]|[1-9]| [1-9]\<close>, \<^verbatim>\<open>%H\<close> is \<^verbatim>\<open>2[0-3]|[0-1]\d|\d\<close>, \<^verbatim>\<open>%M\<close> is
  \<^verbatim>\<open>[0-5]\d|\d\<close>; white space in the format is \<^verbatim>\<open>\s+\<close>, any other character is
  itself. A range such as \<^verbatim>\<open>[0-2]\<close> holds ASCII digits only, \<^verbatim>\<open>\d\<close> any decimal
  digit, \<^verbatim>\<open>\s\<close> any white space. The expression must match a prefix and nothing may
  remain. In the six formats of the source every group is followed by a character that
  no shorter alternative can reach, so the first alternative that matches decides. The
  value of a group is read by \<^verbatim>\<open>int()\<close>. The date is then built with the defaults
  1900-01-01 00:00 for the missing fields.
\<close>

definition ascii_value :: "nat \<Rightarrow> int" where
  "ascii_value c = int c - 48"

definition is_decimal :: "nat \<Rightarrow> bool" where
  "is_decimal c = (decimal_value c \<noteq> None)"

definition any_value :: "nat \<Rightarrow> int" where
  "any_value c = (case decimal_value c of None \<Rightarrow> 0 | Some d \<Rightarrow> d)"

fun re_Y :: "pystr \<Rightarrow> (int \<times> pystr) option" where
  "re_Y (a # b # c # d # s) =
     (if is_decimal a \<and> is_decimal b \<and> is_decimal c \<and> is_decimal d
      then Some (((any_value a * 10 + any_value b) * 10 + any_value c) * 10 + any_value d, s)
      else None)"
| "re_Y s = None"

fun re_m :: "pystr \<Rightarrow> (int \<times> pystr) option" where
  "re_m (a # b # s) =
     (if a = of_char (CHR ''1'') \<and> b \<in> set (ustr ''012'') then Some (10 + ascii_value b, s)
      else if a = of_char (CHR ''0'') \<and> b \<in> set (ustr ''123456789'') then Some (ascii_value b, s)
      else if a \<in> set (ustr ''123456789'') then Some (ascii_value a, b # s)
      else None)"
| "re_m [a] = (if a \<in> set (ustr ''123456789'') then Some (ascii_value a, []) else None)"
| "re_m [] = None"

fun re_d :: "pystr \<Rightarrow> (int \<times> pystr) option" where
  "re_d (a # b # s) =
     (if a = of_char (CHR ''3'') \<and> b \<in> set (ustr ''01'') then Some (30 + ascii_value b, s)
      else if a \<in> set (ustr ''12'') \<and> is_decimal b then Some (ascii_value a * 10 + any_value b, s)
      else if a = of_char (CHR ''0'') \<and> b \<in> set (ustr ''123456789'') then Some (ascii_value b, s)
      else if a \<in> set (ustr ''123456789'') then Some (ascii_value a, b # s)
      else if a = of_char (CHR '' '') \<and> b \<in> set (ustr ''123456789'') then Some (ascii_value b, s)
      else None)"
| "re_d [a] = (if a \<in> set (ustr ''123456789'') then Some (ascii_value a, []) else None)"
| "re_d [] = None"

fun re_H :: "pystr \<Rightarrow> (int \<times> pystr) option" where
  "re_H (a # b # s) =
     (if a = of_char (CHR ''2'') \<and> b \<in> set (ustr ''0123'') then Some (20 + ascii_value b, s)
      else if a \<in> set (ustr ''01'') \<and> is_decimal b then Some (ascii_value a * 10 + any_value b, s)
      else if is_decimal a then Some (any_value a, b # s)
      else None)"
| "re_H [a] = (if is_decimal a then Some (any_value a, []) else None)"
| "re_H [] = None"

fun re_M :: "pystr \<Rightarrow> (int \<times> pystr) option" where
  "re_M (a # b # s) =
     (if a \<in> set (ustr ''012345'') \<and> is_decimal b then Some (ascii_value a * 10 + any_value b, s)
      else if is_decimal a then Some (any_value a, b # s)
      else None)"
| "re_M [a] = (if is_decimal a then Some (any_value a, []) else None)"
| "re_M [] = None"

record found =
  found_Y :: "int option"
  found_m :: "int option"
  found_d :: "int option"
  found_H :: "int option"
  found_M :: "int option"

definition directive :: "nat \<Rightarrow> pystr \<Rightarrow> found \<Rightarrow> (found \<times> pystr) option" where
  "directive c s f =
     (if c = of_char (CHR ''Y'') then map_option (\<lambda>(v, r). (f\<lparr>found_Y := Some v\<rparr>, r)) (re_Y s)
      else if c = of_char (CHR ''m'') then map_option (\<lambda>(v, r). (f\<lparr>found_m := Some v\<rparr>, r)) (re_m s)
      else if c = of_char (CHR ''d'') then map_option (\<lambda>(v, r). (f\<lparr>found_d := Some v\<rparr>, r)) (re_d s)
      else if c = of_char (CHR ''H'') then map_option (\<lambda>(v, r). (f\<lparr>found_H := Some v\<rparr>, r)) (re_H s)
      else if c = of_char (CHR ''M'') then map_option (\<lambda>(v, r). (f\<lparr>found_M := Some v\<rparr>, r)) (re_M s)
      else None)"

fun match_format :: "pystr \<Rightarrow> pystr \<Rightarrow> found \<Rightarrow> (found \<times> pystr) option" where
  "match_format [] s f = Some (f, s)"
| "match_format [c] s f =
     (if c = of_char (CHR ''%'') then None
      else case s of
             [] \<Rightarrow> None
           | x # s' \<Rightarrow>
               if unicode_space c then (if unicode_space x then Some (f, dropWhile unicode_space s') else None)
               else if x = c then Some (f, s') else None)"
| "match_format (c # c' # fmt) s f =
     (if c = of_char (CHR ''%'')
      then (case directive c' s f of
              None \<Rightarrow> None
            | Some (f', s') \<Rightarrow> match_format fmt s' f')
      else case s of
             [] \<Rightarrow> None
           | x # s' \<Rightarrow>
               if unicode_space c
               then (if unicode_space x then match_format (c' # fmt) (dropWhile unicode_space s') f
                     else None)
               else if x = c then match_format (c' # fmt) s' f else None)"

definition strptime :: "pystr \<Rightarrow> pystr \<Rightarrow> pydatetime option" where
  "strptime s fmt =
     (case match_format fmt s \<lparr>found_Y = None, found_m = None, found_d = None, found_H = None, found_M = None\<rparr> of
        None \<Rightarrow> None
      | Some (f, rest) \<Rightarrow>
          if rest \<noteq> [] then None
          else make_datetime
                 (case found_Y f of None \<Rightarrow> 1900 | Some v \<Rightarrow> v)
                 (case found_m f of None \<Rightarrow> 1 | Some v \<Rightarrow> v)
                 (case found_d f of None \<Rightarrow> 1 | Some v \<Rightarrow> v)
                 (case found_H f of None \<Rightarrow> 0 | Some v \<Rightarrow> v)
                 (case found_M f of None \<Rightarrow> 0 | Some v \<Rightarrow> v))"

subsection \<open>\<^verbatim>\<open>_parse_timestamp\<close> and \<^verbatim>\<open>_filter_posts_by_time\<close>\<close>

text \<open>
  The loop over \<^verbatim>\<open>date_formats\<close>: each iteration is one \<^verbatim>\<open>try\<close> whose \<^verbatim>\<open>except\<close>
  continues with the next format.
\<close>

definition date_formats :: "pystr list" where
  "date_formats =
     map ustr [''%Y-%m-%d'', ''%Y/%m/%d'', ''%Y-%m-%d %H:%M'', ''%Y/%m/%d %H:%M'', ''%m-%d'', ''%m/%d'']"

fun try_formats :: "(datetime \<Rightarrow> int option) \<Rightarrow> pydatetime \<Rightarrow> pystr \<Rightarrow> pystr list \<Rightarrow> int" where
  "try_formats posix now timestamp_str [] = 0"
| "try_formats posix now timestamp_str (fmt # fmts) =
     (case strptime timestamp_str fmt of
        None \<Rightarrow> try_formats posix now timestamp_str fmts
      | Some parsed \<Rightarrow>
          (case (if fmt \<in> set (map ustr [''%m-%d'', ''%m/%d'']) then replace_year parsed (year now)
                 else Some parsed) of
             None \<Rightarrow> try_formats posix now timestamp_str fmts
           | Some parsed \<Rightarrow>
               (case timestamp_ms posix (to_micro parsed) of
                  None \<Rightarrow> try_formats posix now timestamp_str fmts
                | Some v \<Rightarrow> v)))"

text \<open>
  A branch "N units ago": its whole body is inside \<^verbatim>\<open>try\<close>, and the bare
  \<^verbatim>\<open>except\<close> returns 0. \<open>timestamp_or_raise\<close> and \<open>before\<close> are the conversions
  of the branches outside any \<^verbatim>\<open>try\<close>, where an exception leaves the function.
\<close>

definition ago :: "(datetime \<Rightarrow> int option) \<Rightarrow> pydatetime \<Rightarrow> int \<Rightarrow> pystr \<Rightarrow> pystr \<Rightarrow> int" where
  "ago posix now unit marker timestamp_str =
     (case py_int (remove_all marker timestamp_str) of
        None \<Rightarrow> 0
      | Some n \<Rightarrow>
          (case minus_timedelta (to_micro now) (n * unit) of
             None \<Rightarrow> 0
           | Some t \<Rightarrow> (case timestamp_ms posix t of None \<Rightarrow> 0 | Some v \<Rightarrow> v)))"

definition timestamp_or_raise :: "(datetime \<Rightarrow> int option) \<Rightarrow> datetime \<Rightarrow> error + int" where
  "timestamp_or_raise posix t =
     (case timestamp_ms posix t of None \<Rightarrow> Inl OverflowError | Some v \<Rightarrow> Inr v)"

definition before :: "(datetime \<Rightarrow> int option) \<Rightarrow> pydatetime \<Rightarrow> timedelta \<Rightarrow> error + int" where
  "before posix now delta =
     (case minus_timedelta (to_micro now) delta of
        None \<Rightarrow> Inl OverflowError
      | Some t \<Rightarrow> timestamp_or_raise posix t)"

definition parse_timestamp ::
  "(datetime \<Rightarrow> int option) \<Rightarrow> pydatetime \<Rightarrow> pystr option \<Rightarrow> error + int" where
  "parse_timestamp posix now timestamp_str =
     (case timestamp_str of
        None \<Rightarrow> Inr 0
      | Some s \<Rightarrow>
          if s = [] then Inr 0
          else if contains gang_gang s then timestamp_or_raise posix (to_micro now)
          else if contains fen_zhong_qian s then Inr (ago posix now 60000000 fen_zhong_qian s)
          else if contains xiao_shi_qian s then Inr (ago posix now (hours 1) xiao_shi_qian s)
          else if contains tian_qian s then Inr (ago posix now (hours 24) tian_qian s)
          else if contains zuo_tian s then before posix now (hours 24)
          else if contains qian_tian s then before posix now (hours 48)
          else Inr (try_formats posix now s date_formats))"


text \<open>
  A post is a dict; the filter reads two of its keys with \<^verbatim>\<open>get\<close>, so each is optional.
\<close>

record post =
  post_id :: string
  timestamp :: "pystr option"
  timestamp_unix :: "int option"








text \<open>
  A machine on UTC, a clock at 2024-03-01 12:00:00, the clock one second later, and posts
  for the instances below; the window is the week that ends at the first clock.
\<close>

definition utc :: "datetime \<Rightarrow> int option" where
  "utc = (\<lambda>t. Some t)"

definition clock :: pydatetime where
  "clock = \<lparr>year = 2024, month = 3, day = 1, hour = 12, minute = 0, second = 0, microsecond = 0\<rparr>"






section \<open>The run of the monitor (xhs_browser_monitor.py)\<close>

text \<open>
  \<^verbatim>\<open>run\<close> drives a browser and the network. What they do is the environment of the
  model: whether the browser opens, what each keyword iteration contributes and how it
  ends, and whether printing the account summary and closing the browser raise. What
  \<^verbatim>\<open>save_results\<close> does is computed from \<^verbatim>\<open>DataStorage.save_results\<close>.
\<close>

datatype MonitorPeriod = ONE_DAY | THREE_DAYS | ONE_WEEK | TWO_WEEKS | ONE_MONTH | CUSTOM

record MonitorConfig =
  config_keywords :: "string list"
  monitor_period :: MonitorPeriod
  custom_days :: int
  max_posts_per_keyword :: int
  max_comments_per_post :: int
  extract_comments :: bool
  headless :: bool

type_synonym comment = string

record monitor_stats =
  total_posts :: int
  total_comments :: int
  keywords_processed :: int

text \<open>The lists and the counters that \<^verbatim>\<open>run\<close> accumulates and puts into the result document.\<close>

record results =
  result_posts :: "post list"
  result_comments :: "comment list"
  result_stats :: monitor_stats

subsection \<open>\<^verbatim>\<open>save_results\<close>\<close>

text \<open>
  The Python values that reach \<^verbatim>\<open>json.dump\<close>. Its encoder writes \<^verbatim>\<open>None\<close>, booleans,
  integers, texts, lists and dicts with text keys; for any other object, a member of a
  plain \<^verbatim>\<open>Enum\<close> among them, it raises \<^verbatim>\<open>TypeError\<close>, leaving the file cut off at that
  place.
\<close>

datatype pyvalue =
  PyNone
| PyBool bool
| PyInt int
| PyStr pystr
| PyList "pyvalue list"
| PyDict "(string \<times> pyvalue) list"
| PyEnum MonitorPeriod

fun json_serializable :: "pyvalue \<Rightarrow> bool"
  and json_serializable_list :: "pyvalue list \<Rightarrow> bool"
  and json_serializable_items :: "(string \<times> pyvalue) list \<Rightarrow> bool" where
  "json_serializable PyNone = True"
| "json_serializable (PyBool b) = True"
| "json_serializable (PyInt i) = True"
| "json_serializable (PyStr s) = True"
| "json_serializable (PyList vs) = json_serializable_list vs"
| "json_serializable (PyDict kvs) = json_serializable_items kvs"
| "json_serializable (PyEnum e) = False"
| "json_serializable_list [] = True"
| "json_serializable_list (v # vs) = (json_serializable v \<and> json_serializable_list vs)"
| "json_serializable_items [] = True"
| "json_serializable_items ((k, v) # kvs) = (json_serializable v \<and> json_serializable_items kvs)"

text \<open>\<^verbatim>\<open>asdict(self.config)\<close> copies the fields; the member of \<^verbatim>\<open>MonitorPeriod\<close> stays a member.\<close>

definition asdict :: "MonitorConfig \<Rightarrow> pyvalue" where
  "asdict config =
     PyDict
       [(''keywords'', PyList (map (\<lambda>k. PyStr (ustr k)) (config_keywords config))),
        (''monitor_period'', PyEnum (monitor_period config)),
        (''custom_days'', PyInt (custom_days config)),
        (''max_posts_per_keyword'', PyInt (max_posts_per_keyword config)),
        (''max_comments_per_post'', PyInt (max_comments_per_post config)),
        (''extract_comments'', PyBool (extract_comments config)),
        (''headless'', PyBool (headless config))]"

text \<open>
  The dict that \<^verbatim>\<open>run\<close> hands to \<^verbatim>\<open>save_results\<close>. Of a post and of a comment only the
  entries of the model are listed; the others are texts, integers and lists of texts.
  The two times of \<^verbatim>\<open>time_range\<close> and the start time of the statistics are texts, the
  end time is still \<^verbatim>\<open>None\<close>.
\<close>

definition post_value :: "post \<Rightarrow> pyvalue" where
  "post_value p =
     PyDict
       [(''id'', PyStr (ustr (post_id p))),
        (''timestamp'', (case timestamp p of None \<Rightarrow> PyNone | Some s \<Rightarrow> PyStr s)),
        (''timestamp_unix'', (case timestamp_unix p of None \<Rightarrow> PyNone | Some t \<Rightarrow> PyInt t))]"

definition results_document :: "MonitorConfig \<Rightarrow> string \<Rightarrow> string \<Rightarrow> string \<Rightarrow> results \<Rightarrow> pyvalue" where
  "results_document config start_time range_start range_end r =
     PyDict
       [(''posts'', PyList (map post_value (result_posts r))),
        (''comments'', PyList (map (\<lambda>c. PyDict [(''id'', PyStr (ustr c))]) (result_comments r))),
        (''stats'', PyDict
           [(''total_posts'', PyInt (total_posts (result_stats r))),
            (''total_comments'', PyInt (total_comments (result_stats r))),
            (''keywords_processed'', PyInt (keywords_processed (result_stats r))),
            (''start_time'', PyStr (ustr start_time)),
            (''end_time'', PyNone)]),
        (''config'', asdict config),
        (''time_range'', PyDict [(''start'', PyStr (ustr range_start)), (''end'', PyStr (ustr range_end))])]"

text \<open>
  \<^verbatim>\<open>export_to_csv\<close> writes the rows with a \<^verbatim>\<open>csv.DictWriter\<close> over a fixed list of field
  names; the writer raises \<^verbatim>\<open>ValueError\<close> for a row with a key outside that list. The keys
  of a row are those that \<^verbatim>\<open>_extract_search_results\<close> and \<^verbatim>\<open>_extract_comments\<close> give
  every post and every comment.
\<close>

definition post_fieldnames :: "string list" where
  "post_fieldnames =
     [''id'', ''title'', ''description'', ''author_nickname'', ''author_id'', ''url'',
      ''timestamp'', ''like_count'', ''collect_count'', ''comment_count'', ''share_count'',
      ''tags'', ''keyword'', ''extracted_at'']"

definition comment_fieldnames :: "string list" where
  "comment_fieldnames =
     [''id'', ''post_id'', ''post_title'', ''content'', ''author_nickname'', ''author_id'',
      ''timestamp'', ''like_count'', ''keyword'', ''extracted_at'']"

definition post_keys :: "string list" where
  "post_keys =
     [''id'', ''title'', ''description'', ''author_nickname'', ''author_id'', ''url'',
      ''timestamp'', ''timestamp_unix'', ''like_count'', ''collect_count'', ''comment_count'',
      ''share_count'', ''tags'', ''images'', ''keyword'']"

definition comment_keys :: "string list" where
  "comment_keys =
     [''id'', ''post_id'', ''post_title'', ''content'', ''author_nickname'', ''author_id'',
      ''timestamp'', ''timestamp_unix'', ''like_count'', ''keyword'', ''extracted_at'']"

definition export_to_csv_raises :: "'a list \<Rightarrow> string list \<Rightarrow> string list \<Rightarrow> bool" where
  "export_to_csv_raises rows row_keys fieldnames =
     (rows \<noteq> [] \<and> \<not> list_all (\<lambda>k. k \<in> set fieldnames) row_keys)"

text \<open>
  The valid documents on disk after a call of \<^verbatim>\<open>save_results\<close>, and whether the call
  raised. A document that \<^verbatim>\<open>json.dump\<close> left cut off is not a valid document.
\<close>

definition save_results ::
  "MonitorConfig \<Rightarrow> string \<Rightarrow> string \<Rightarrow> string \<Rightarrow> results \<Rightarrow> results list \<Rightarrow> results list \<times> bool" where
  "save_results config start_time range_start range_end r persisted =
     (if \<not> json_serializable (results_document config start_time range_start range_end r)
      then (persisted, True)
      else if result_posts r \<noteq> [] \<and> export_to_csv_raises (result_posts r) post_keys post_fieldnames
      then (persisted @ [r], True)
      else if result_comments r \<noteq> []
              \<and> export_to_csv_raises (result_comments r) comment_keys comment_fieldnames
      then (persisted @ [r], True)
      else (persisted @ [r], False))"

subsection \<open>\<^verbatim>\<open>run\<close>\<close>

text \<open>
  What can leave a step of the run: an \<^verbatim>\<open>Exception\<close>, a \<^verbatim>\<open>KeyboardInterrupt\<close>, or another
  \<^verbatim>\<open>BaseException\<close> such as the \<^verbatim>\<open>CancelledError\<close> of a cancelled task, which no handler
  of \<^verbatim>\<open>run\<close> catches.
\<close>

datatype signal = Exception | KeyboardInterrupt | CancelledError

text \<open>
  One iteration of the loop with an account manager: no account was selected; the login
  failed; the search returned; something raised before the lists were extended; or
  something raised after (\<^verbatim>\<open>record_usage\<close>, \<^verbatim>\<open>page.close\<close>, the delay).
\<close>

datatype account_event =
  NoAccount
| LoginFailed
| Searched "post list" "comment list"
| Raised signal
| SearchedRaised "post list" "comment list" signal

text \<open>
  One iteration of the loop without an account manager; its body is inside a \<^verbatim>\<open>try\<close>
  whose \<^verbatim>\<open>except Exception\<close> goes on with the next keyword.
\<close>

datatype manual_event =
  ManualSearched "post list" "comment list"
| ManualRaised signal
| ManualSearchedRaised "post list" "comment list" signal

datatype run_mode =
  WithAccounts "account_event list"
| Manual "signal option" "manual_event list"

record run_env =
  browser_opens :: bool
  mode :: run_mode
  summary_raises :: bool
  close_raises :: bool
  start_time :: string
  range_start :: string
  range_end :: string

text \<open>
  How a run ends: it returns from the \<^verbatim>\<open>try\<close> body (COMPLETED), it returns from the
  handler of \<^verbatim>\<open>KeyboardInterrupt\<close> (STOPPED), or it raises (ERROR).
\<close>

datatype run_end = COMPLETED | STOPPED | ERROR

definition empty_results :: results where
  "empty_results =
     \<lparr>result_posts = [], result_comments = [],
      result_stats = \<lparr>total_posts = 0, total_comments = 0, keywords_processed = 0\<rparr>\<rparr>"

definition extend_results :: "results \<Rightarrow> post list \<Rightarrow> comment list \<Rightarrow> results" where
  "extend_results r ps cs =
     \<lparr>result_posts = result_posts r @ ps, result_comments = result_comments r @ cs,
      result_stats =
        \<lparr>total_posts = total_posts (result_stats r) + int (length ps),
         total_comments = total_comments (result_stats r) + int (length cs),
         keywords_processed = keywords_processed (result_stats r) + 1\<rparr>\<rparr>"

fun account_loop :: "account_event list \<Rightarrow> results \<Rightarrow> results \<times> signal option" where
  "account_loop [] r = (r, None)"
| "account_loop (NoAccount # events) r = account_loop events r"
| "account_loop (LoginFailed # events) r = account_loop events r"
| "account_loop (Searched ps cs # events) r = account_loop events (extend_results r ps cs)"
| "account_loop (Raised s # events) r = (r, Some s)"
| "account_loop (SearchedRaised ps cs s # events) r = (extend_results r ps cs, Some s)"

fun manual_loop :: "manual_event list \<Rightarrow> results \<Rightarrow> results \<times> signal option" where
  "manual_loop [] r = (r, None)"
| "manual_loop (ManualSearched ps cs # events) r = manual_loop events (extend_results r ps cs)"
| "manual_loop (ManualRaised s # events) r =
     (if s = Exception then manual_loop events r else (r, Some s))"
| "manual_loop (ManualSearchedRaised ps cs s # events) r =
     (if s = Exception then manual_loop events (extend_results r ps cs)
      else (extend_results r ps cs, Some s))"

definition collected :: "run_env \<Rightarrow> results \<times> signal option" where
  "collected env =
     (case mode env of
        WithAccounts events \<Rightarrow> account_loop events empty_results
      | Manual None events \<Rightarrow> manual_loop events empty_results
      | Manual (Some s) events \<Rightarrow> (empty_results, Some s))"

definition save :: "MonitorConfig \<Rightarrow> run_env \<Rightarrow> results \<Rightarrow> results list \<Rightarrow> results list \<times> bool" where
  "save config env r persisted =
     save_results config (start_time env) (range_start env) (range_end env) r persisted"

text \<open>\<^verbatim>\<open>finally\<close>: closing the browser may replace the outcome by an exception.\<close>

definition finally_close :: "run_env \<Rightarrow> run_end \<times> results list \<Rightarrow> run_end \<times> results list" where
  "finally_close env out = (if close_raises env then (ERROR, snd out) else out)"

text \<open>
  \<^verbatim>\<open>except Exception\<close>: the results are saved only when a post or a comment was
  collected, and the exception is raised again.
\<close>

definition on_exception ::
  "MonitorConfig \<Rightarrow> run_env \<Rightarrow> results \<Rightarrow> results list \<Rightarrow> run_end \<times> results list" where
  "on_exception config env r persisted =
     (if \<not> (result_posts r = [] \<and> result_comments r = [])
      then (ERROR, fst (save config env r persisted))
      else (ERROR, persisted))"

definition run :: "MonitorConfig \<Rightarrow> run_env \<Rightarrow> run_end \<times> results list" where
  "run config env =
     (if \<not> browser_opens env then (ERROR, [])
      else finally_close env
        (case collected env of
           (r, None) \<Rightarrow>
             (case save config env r [] of
                (persisted, True) \<Rightarrow> on_exception config env r persisted
              | (persisted, False) \<Rightarrow>
                  if summary_raises env then on_exception config env r persisted
                  else (COMPLETED, persisted))
         | (r, Some KeyboardInterrupt) \<Rightarrow>
             (case save config env r [] of
                (persisted, True) \<Rightarrow> (ERROR, persisted)
              | (persisted, False) \<Rightarrow> (STOPPED, persisted))
         | (r, Some Exception) \<Rightarrow> on_exception config env r []
         | (r, Some CancelledError) \<Rightarrow> (ERROR, [])))"

text \<open>
  A run of the service's default configuration over three keywords, with an account
  manager, in which the browser opens and nothing but \<^verbatim>\<open>save_results\<close> can raise.
\<close>

definition three_keywords :: MonitorConfig where
  "three_keywords =
     \<lparr>config_keywords = [''k1'', ''k2'', ''k3''], monitor_period = ONE_WEEK, custom_days = 7,
      max_posts_per_keyword = 50, max_comments_per_post = 20, extract_comments = True,
      headless = False\<rparr>"

definition quiet_env :: "account_event list \<Rightarrow> run_env" where
  "quiet_env events =
     \<lparr>browser_opens = True, mode = WithAccounts events,
      summary_raises = False, close_raises = False,
      start_time = ''2024-03-01T12:00:00'', range_start = ''2024-02-23T12:00:00'',
      range_end = ''2024-03-01T12:00:00''\<rparr>"

section \<open>Status exclusion\<close>

text \<open>
  C1. The claim: an account whose status is BANNED or LIMITED is returned by neither
  selection strategy. \<^verbatim>\<open>get_account_for_search\<close> skips BANNED accounts only: on a
  registry holding one LIMITED account that was never used and never failed, it returns
  that account.
\<close>

theorem get_account_for_search_returns_limited:
  "get_account_for_search fromisoformat now [(''acc_001'', sample_account ''acc_001'' (status_value LIMITED))]
     = Inr (Some (sample_account ''acc_001'' (status_value LIMITED)))"
  by (simp add: get_account_for_search_def sample_account_def cooldown_remaining_def)

text \<open>
  C2. The claim: an account with three or more consecutive failures is returned by
  neither selection strategy. \<^verbatim>\<open>get_next_account\<close> never reads
  \<^verbatim>\<open>consecutive_failures\<close>: on a registry holding one ACTIVE account with three
  consecutive failures it returns that account.
\<close>

theorem get_next_account_returns_failing:
  "get_next_account fromisoformat True (hours 1) now
     [(''acc_001'', (sample_account ''acc_001'' (status_value ACTIVE))\<lparr>consecutive_failures := 3\<rparr>)]
     = Inr (Some ((sample_account ''acc_001'' (status_value ACTIVE))\<lparr>consecutive_failures := 3\<rparr>))"
  by (simp add: get_next_account_def sample_account_def)

section \<open>Cooldown-respecting selection\<close>


text \<open>The head of a stable sort is the first of the least elements.\<close>

lemma hd_insort_key:
  "hd (insort_key f x ys) = (if ys = [] \<or> f x \<le> f (hd ys) then x else hd ys)"
  by (cases ys) auto

lemma hd_sort_key_first:
  assumes "xs \<noteq> []"
  shows "\<exists>pre a post. xs = pre @ a # post \<and> hd (sort_key f xs) = a
           \<and> (\<forall>b\<in>set pre. f a < f b) \<and> (\<forall>b\<in>set post. f a \<le> f b)"
  using assms
proof (induction xs)
  case Nil
  then show ?case by simp
next
  case (Cons x xs)
  show ?case
  proof (cases "xs = []")
    case True
    then have "x # xs = [] @ x # [] \<and> hd (sort_key f (x # xs)) = x" by simp
    then show ?thesis by fastforce
  next
    case False
    from Cons.IH [OF False] obtain pre a post where d: "xs = pre @ a # post"
      and h: "hd (sort_key f xs) = a"
      and lt: "\<forall>b\<in>set pre. f a < f b" and le: "\<forall>b\<in>set post. f a \<le> f b"
      by blast
    from False have ne: "sort_key f xs \<noteq> []"
      by (metis length_sort length_0_conv)
    have all: "\<forall>b\<in>set xs. f a \<le> f b"
      using d lt le by (auto intro: less_imp_le)
    show ?thesis
    proof (cases "f x \<le> f a")
      case True
      then have "hd (sort_key f (x # xs)) = x"
        using ne h by (simp add: hd_insort_key)
      moreover have "\<forall>b\<in>set xs. f x \<le> f b"
        using all True by (auto intro: order_trans)
      ultimately have "x # xs = [] @ x # xs \<and> hd (sort_key f (x # xs)) = x
          \<and> (\<forall>b\<in>set []. f x < f b) \<and> (\<forall>b\<in>set xs. f x \<le> f b)"
        by simp
      then show ?thesis by blast
    next
      case False
      then have "hd (sort_key f (x # xs)) = a"
        using ne h by (simp add: hd_insort_key)
      moreover have "\<forall>b\<in>set (x # pre). f a < f b"
        using lt False by auto
      moreover have "x # xs = (x # pre) @ a # post"
        using d by simp
      ultimately show ?thesis using le by blast
    qed
  qed
qed

lemma precedes_next_key: "precedes a b \<longleftrightarrow> next_key a \<le> next_key b"
  by (auto simp: precedes_def next_key_def)

lemma scan_accounts_eq:
  assumes "\<forall>a\<in>set (map snd accs). eligible a \<and> last_used_at a \<noteq> [] \<longrightarrow> cooldown_computable fromisoformat cd a"
  shows "scan_accounts fromisoformat True cd now accs av co =
         Inr (av @ filter (\<lambda>a. \<not> within_cooldown fromisoformat cd now a) (filter eligible (map snd accs)),
              co @ map (\<lambda>a. (a, cooldown_expiry fromisoformat cd a))
                     (filter (within_cooldown fromisoformat cd now) (filter eligible (map snd accs))))"
  using assms
proof (induction accs arbitrary: av co)
  case Nil
  then show ?case by simp
next
  case (Cons p accs)
  obtain k a where p: "p = (k, a)" by (cases p)
  from Cons.prems have rest: "\<forall>a\<in>set (map snd accs). eligible a \<and> last_used_at a \<noteq> [] \<longrightarrow> cooldown_computable fromisoformat cd a"
    by simp
  note IH = Cons.IH [OF rest]
  show ?case
  proof (cases "eligible a")
    case False
    then show ?thesis using IH by (simp add: p eligible_def)
  next
    case True
    show ?thesis
    proof (cases "last_used_at a = []")
      case True
      with \<open>eligible a\<close> show ?thesis using IH
        by (simp add: p eligible_def within_cooldown_def)
    next
      case False
      with Cons.prems True have cc: "cooldown_computable fromisoformat cd a"
        by (auto simp: p)
      then obtain lu where lu: "fromisoformat (last_used_at a) = Some lu"
        by (auto simp: cooldown_computable_def split: option.splits)
      with cc have pt: "plus_timedelta lu cd = Some (lu + cd)"
        by (auto simp: cooldown_computable_def plus_timedelta_def split: if_splits)
      from lu pt False True show ?thesis using IH
        by (simp add: p eligible_def within_cooldown_def cooldown_expiry_def)
    qed
  qed
qed

text \<open>
  C7. With \<^verbatim>\<open>respect_cooldown\<close> enabled, on a registry on which the cooldown of every
  used eligible account can be computed, \<^verbatim>\<open>get_next_account\<close> drops the BANNED and
  LIMITED accounts and splits the rest into available and cooling. If some account is
  available it returns the head of the available accounts sorted by (status is not
  ACTIVE, total uses, last use): the first available account, in registry order, that
  the order of the specification puts no later than any other. Otherwise, if some
  account is cooling, it returns the first cooling account whose cooldown ends earliest;
  otherwise it returns nothing.
\<close>

theorem get_next_account_cooldown:
  assumes "\<forall>a\<in>set (map snd accs). eligible a \<and> last_used_at a \<noteq> [] \<longrightarrow> cooldown_computable fromisoformat cd a"
  shows "let rest = filter eligible (map snd accs);
             available = filter (\<lambda>a. \<not> within_cooldown fromisoformat cd now a) rest;
             cooling = filter (within_cooldown fromisoformat cd now) rest;
             result = get_next_account fromisoformat True cd now accs
         in (available \<noteq> [] \<longrightarrow>
               (\<exists>pre a post. available = pre @ a # post \<and> result = Inr (Some a)
                  \<and> (\<forall>b\<in>set pre. \<not> precedes b a) \<and> (\<forall>b\<in>set post. precedes a b)))
          \<and> (available = [] \<and> cooling \<noteq> [] \<longrightarrow>
               (\<exists>pre a post. cooling = pre @ a # post \<and> result = Inr (Some a)
                  \<and> (\<forall>b\<in>set pre. cooldown_expiry fromisoformat cd a < cooldown_expiry fromisoformat cd b)
                  \<and> (\<forall>b\<in>set post. cooldown_expiry fromisoformat cd a \<le> cooldown_expiry fromisoformat cd b)))
          \<and> (available = [] \<and> cooling = [] \<longrightarrow> result = Inr None)"
proof -
  define rest where "rest = filter eligible (map snd accs)"
  define available where "available = filter (\<lambda>a. \<not> within_cooldown fromisoformat cd now a) rest"
  define cooling where "cooling = filter (within_cooldown fromisoformat cd now) rest"
  define expiry where "expiry = cooldown_expiry fromisoformat cd"
  define timed where "timed = map (\<lambda>a. (a, expiry a)) cooling"
  have scan: "scan_accounts fromisoformat True cd now accs [] [] = Inr (available, timed)"
    using scan_accounts_eq [OF assms, of now "[]" "[]"]
    by (simp add: rest_def available_def cooling_def timed_def expiry_def)
  have empty: "accs = [] \<Longrightarrow> available = [] \<and> cooling = []"
    by (simp add: rest_def available_def cooling_def)
  have timed_ne: "timed \<noteq> [] \<longleftrightarrow> cooling \<noteq> []"
    by (simp add: timed_def)
  have a: "\<exists>pre a post. available = pre @ a # post
             \<and> get_next_account fromisoformat True cd now accs = Inr (Some a)
             \<and> (\<forall>b\<in>set pre. \<not> precedes b a) \<and> (\<forall>b\<in>set post. precedes a b)"
    if av: "available \<noteq> []"
  proof -
    from av empty have "accs \<noteq> []" by auto
    with scan av have res: "get_next_account fromisoformat True cd now accs
        = Inr (Some (hd (sort_key next_key available)))"
      by (simp add: get_next_account_def)
    from hd_sort_key_first [OF av, of next_key] obtain pre x post where
      d: "available = pre @ x # post" and h: "hd (sort_key next_key available) = x"
      and lt: "\<forall>b\<in>set pre. next_key x < next_key b"
      and le: "\<forall>b\<in>set post. next_key x \<le> next_key b"
      by blast
    have "\<forall>b\<in>set pre. \<not> precedes b x"
      using lt by (auto simp: precedes_next_key)
    moreover have "\<forall>b\<in>set post. precedes x b"
      using le by (simp add: precedes_next_key)
    ultimately show ?thesis using d h res by auto
  qed
  have n: "available = [] \<Longrightarrow> cooling = [] \<Longrightarrow> get_next_account fromisoformat True cd now accs = Inr None"
    using scan timed_ne by (auto simp: get_next_account_def)
  have c: "\<exists>pre a post. cooling = pre @ a # post
             \<and> get_next_account fromisoformat True cd now accs = Inr (Some a)
             \<and> (\<forall>b\<in>set pre. expiry a < expiry b) \<and> (\<forall>b\<in>set post. expiry a \<le> expiry b)"
    if av: "available = []" and co: "cooling \<noteq> []"
  proof -
    from co have tne: "timed \<noteq> []" by (simp add: timed_def)
    from co empty have "accs \<noteq> []" by auto
    with scan av tne have res: "get_next_account fromisoformat True cd now accs = Inr (Some (fst (hd (sort_key snd timed))))"
      by (simp add: get_next_account_def)
    from hd_sort_key_first [OF tne, of snd] obtain tpre x tpost where
      d: "timed = tpre @ x # tpost" and h: "hd (sort_key snd timed) = x"
      and lt: "\<forall>b\<in>set tpre. snd x < snd b" and le: "\<forall>b\<in>set tpost. snd x \<le> snd b"
      by blast
    from d obtain pre y post where c: "cooling = pre @ y # post"
      and m: "tpre = map (\<lambda>a. (a, expiry a)) pre" "x = (y, expiry y)"
        "tpost = map (\<lambda>a. (a, expiry a)) post"
      unfolding timed_def by (auto simp: map_eq_append_conv map_eq_Cons_conv)
    have "\<forall>b\<in>set pre. expiry y < expiry b" using lt m by auto
    moreover have "\<forall>b\<in>set post. expiry y \<le> expiry b" using le m by auto
    ultimately show ?thesis using c res h m by auto
  qed
  show ?thesis
    unfolding Let_def
    using a n c
    by (simp only: rest_def [symmetric] available_def [symmetric] cooling_def [symmetric]
        expiry_def [symmetric]) blast
qed

lemma rotation_registry_computable:
  "\<forall>a\<in>set (map snd rotation_registry). eligible a \<and> last_used_at a \<noteq> []
      \<longrightarrow> cooldown_computable rotation_fromisoformat (hours 1) a"
  by (simp add: rotation_registry_def sample_account_def rotation_fromisoformat_def
      cooldown_computable_def plus_timedelta_def hours_def timedelta_min_def timedelta_max_def
      datetime_min_def datetime_max_def)

lemma cooling_registry_computable:
  "\<forall>a\<in>set (map snd cooling_registry). eligible a \<and> last_used_at a \<noteq> []
      \<longrightarrow> cooldown_computable rotation_fromisoformat (hours 3) a"
  by (simp add: cooling_registry_def sample_account_def rotation_fromisoformat_def
      cooldown_computable_def plus_timedelta_def hours_def timedelta_min_def timedelta_max_def
      datetime_min_def datetime_max_def)

theorem get_next_account_cooldown_witness:
  "list_all (\<lambda>a. eligible a \<and> last_used_at a \<noteq> [] \<longrightarrow> cooldown_computable rotation_fromisoformat (hours 1) a)
     (map snd rotation_registry)
   \<and> filter (\<lambda>a. \<not> within_cooldown rotation_fromisoformat (hours 1) 1735725600000000 a)
        (filter eligible (map snd rotation_registry))
       = map (\<lambda>i. snd (rotation_registry ! i)) [2, 3, 4, 5, 6]
   \<and> get_next_account rotation_fromisoformat True (hours 1) 1735725600000000 rotation_registry
       = Inr (Some (snd (rotation_registry ! 5)))
   \<and> (\<exists>pre a post.
         map (\<lambda>i. snd (rotation_registry ! i)) [2, 3, 4, 5, 6] = pre @ a # post
       \<and> get_next_account rotation_fromisoformat True (hours 1) 1735725600000000 rotation_registry
           = Inr (Some a)
       \<and> (\<forall>b\<in>set pre. \<not> precedes b a) \<and> (\<forall>b\<in>set post. precedes a b))
   \<and> list_all (\<lambda>a. eligible a \<and> last_used_at a \<noteq> [] \<longrightarrow> cooldown_computable rotation_fromisoformat (hours 3) a)
       (map snd cooling_registry)
   \<and> filter (\<lambda>a. \<not> within_cooldown rotation_fromisoformat (hours 3) 1735725600000000 a)
        (filter eligible (map snd cooling_registry)) = []
   \<and> get_next_account rotation_fromisoformat True (hours 3) 1735725600000000 cooling_registry
       = Inr (Some (snd (cooling_registry ! 2)))"
proof -
  note ev = rotation_registry_def cooling_registry_def sample_account_def rotation_fromisoformat_def
    hours_def eligible_def within_cooldown_def
  have h1: "list_all (\<lambda>a. eligible a \<and> last_used_at a \<noteq> [] \<longrightarrow> cooldown_computable rotation_fromisoformat (hours 1) a)
     (map snd rotation_registry)"
    using rotation_registry_computable by (simp add: list_all_iff)
  have h3: "list_all (\<lambda>a. eligible a \<and> last_used_at a \<noteq> [] \<longrightarrow> cooldown_computable rotation_fromisoformat (hours 3) a)
     (map snd cooling_registry)"
    using cooling_registry_computable by (simp add: list_all_iff)
  have av1: "filter (\<lambda>a. \<not> within_cooldown rotation_fromisoformat (hours 1) 1735725600000000 a)
        (filter eligible (map snd rotation_registry))
       = map (\<lambda>i. snd (rotation_registry ! i)) [2, 3, 4, 5, 6]"
    by (simp add: ev)
  have av3: "filter (\<lambda>a. \<not> within_cooldown rotation_fromisoformat (hours 3) 1735725600000000 a)
        (filter eligible (map snd cooling_registry)) = []"
    by (simp add: ev)
  have co3: "filter (within_cooldown rotation_fromisoformat (hours 3) 1735725600000000)
        (filter eligible (map snd cooling_registry))
       = map (\<lambda>i. snd (cooling_registry ! i)) [1, 2]"
    by (simp add: ev)
  from get_next_account_cooldown [OF rotation_registry_computable, of 1735725600000000]
  have t1: "\<exists>pre a post.
         map (\<lambda>i. snd (rotation_registry ! i)) [2, 3, 4, 5, 6] = pre @ a # post
       \<and> get_next_account rotation_fromisoformat True (hours 1) 1735725600000000 rotation_registry
           = Inr (Some a)
       \<and> (\<forall>b\<in>set pre. \<not> precedes b a) \<and> (\<forall>b\<in>set post. precedes a b)"
    unfolding Let_def av1 by simp
  have r1: "get_next_account rotation_fromisoformat True (hours 1) 1735725600000000 rotation_registry
       = Inr (Some (snd (rotation_registry ! 5)))"
    by (simp add: get_next_account_def ev next_key_def plus_timedelta_def timedelta_min_def
        timedelta_max_def datetime_min_def datetime_max_def)
  have r3: "get_next_account rotation_fromisoformat True (hours 3) 1735725600000000 cooling_registry
       = Inr (Some (snd (cooling_registry ! 2)))"
    by (simp add: get_next_account_def ev plus_timedelta_def timedelta_min_def
        timedelta_max_def datetime_min_def datetime_max_def)
  from h1 h3 av1 av3 t1 r1 r3 show ?thesis by blast
qed

section \<open>Scored selection\<close>








section \<open>Encoding of strings\<close>

lemma scalar_value_encode_char: "scalar_value c \<longleftrightarrow> encode_char c \<noteq> None"
  by (simp add: encode_char_def scalar_value_def surrogate_def)

lemma list_all_scalar_value_encode: "list_all scalar_value s \<longleftrightarrow> encode s \<noteq> None"
proof (induction s)
  case Nil
  show ?case by simp
next
  case (Cons c s)
  show ?case
    using Cons scalar_value_encode_char [of c] by (cases "encode_char c") auto
qed

lemma utf8_value_3: "(c div 0x1000 * 0x40 + c div 0x40 mod 0x40) * 0x40 + c mod 0x40 = (c::nat)"
proof -
  have "c div 0x1000 = c div 0x40 div 0x40" by (simp add: div_mult2_eq [symmetric])
  then have "c div 0x1000 * 0x40 + c div 0x40 mod 0x40 = c div 0x40" by simp
  then show ?thesis by simp
qed

lemma utf8_value_4:
  "((c div 0x40000 * 0x40 + c div 0x1000 mod 0x40) * 0x40 + c div 0x40 mod 0x40) * 0x40
     + c mod 0x40 = (c::nat)"
proof -
  have "c div 0x40000 = c div 0x1000 div 0x40" by (simp add: div_mult2_eq [symmetric])
  then have "c div 0x40000 * 0x40 + c div 0x1000 mod 0x40 = c div 0x1000" by simp
  then show ?thesis using utf8_value_3 [of c] by simp
qed

lemma continuation_low_bits:
  assumes "n < 0x40"
  shows "continuation (char_of (0x80 + n))" "low_bits (char_of (0x80 + n)) = n"
  using assms by (simp_all add: continuation_def low_bits_def)

lemma decode_1:
  assumes "c < 0x80"
  shows "decode (char_of c # r) = map_option ((#) c) (decode r)"
  using assms by simp

lemma decode_2:
  assumes "0x80 \<le> c" "c < 0x800"
  shows "decode (char_of (0xC0 + c div 0x40) # char_of (0x80 + c mod 0x40) # r)
           = map_option ((#) c) (decode r)"
proof -
  have a: "(0xC0 + c div 0x40) mod 256 = 0xC0 + c div 0x40" using assms by simp
  have b: "(0x80 + c mod 0x40) mod 256 = 0x80 + c mod 0x40" by simp
  have r: "0xC2 \<le> 0xC0 + c div 0x40" "0xC0 + c div 0x40 < 0xE0" using assms by simp_all
  show ?thesis
    using r by (simp add: a b continuation_def low_bits_def Let_def)
qed

lemma decode_3:
  assumes "0x800 \<le> c" "c < 0x10000" "\<not> surrogate c"
  shows "decode (char_of (0xE0 + c div 0x1000) # char_of (0x80 + c div 0x40 mod 0x40)
                 # char_of (0x80 + c mod 0x40) # r)
           = map_option ((#) c) (decode r)"
proof -
  define a where "a = 0xE0 + c div 0x1000"
  have a: "of_char (char_of a) = a" "\<not> a < 0x80" "\<not> a < 0xC2" "\<not> a < 0xE0" "a < 0xF0"
    "a - 0xE0 = c div 0x1000"
    using assms by (simp_all add: a_def)
  have l: "continuation (char_of (0x80 + c div 0x40 mod 0x40))"
    "low_bits (char_of (0x80 + c div 0x40 mod 0x40)) = c div 0x40 mod 0x40"
    "continuation (char_of (0x80 + c mod 0x40))"
    "low_bits (char_of (0x80 + c mod 0x40)) = c mod 0x40"
    by (simp_all add: continuation_low_bits)
  show ?thesis
    unfolding a_def [symmetric]
    by (simp only: decode.simps Let_def a l utf8_value_3 assms if_True if_False list.case
        simp_thms)
qed

lemma decode_4:
  assumes "0x10000 \<le> c" "c < 0x110000"
  shows "decode (char_of (0xF0 + c div 0x40000) # char_of (0x80 + c div 0x1000 mod 0x40)
                 # char_of (0x80 + c div 0x40 mod 0x40) # char_of (0x80 + c mod 0x40) # r)
           = map_option ((#) c) (decode r)"
proof -
  define a where "a = 0xF0 + c div 0x40000"
  have a: "of_char (char_of a) = a" "\<not> a < 0x80" "\<not> a < 0xC2" "\<not> a < 0xE0" "\<not> a < 0xF0"
    "a < 0xF5" "a - 0xF0 = c div 0x40000"
    using assms by (simp_all add: a_def)
  have l: "continuation (char_of (0x80 + c div 0x1000 mod 0x40))"
    "low_bits (char_of (0x80 + c div 0x1000 mod 0x40)) = c div 0x1000 mod 0x40"
    "continuation (char_of (0x80 + c div 0x40 mod 0x40))"
    "low_bits (char_of (0x80 + c div 0x40 mod 0x40)) = c div 0x40 mod 0x40"
    "continuation (char_of (0x80 + c mod 0x40))"
    "low_bits (char_of (0x80 + c mod 0x40)) = c mod 0x40"
    by (simp_all add: continuation_low_bits)
  show ?thesis
    unfolding a_def [symmetric]
    by (simp only: decode.simps Let_def a l utf8_value_4 assms if_True if_False list.case
        simp_thms)
qed

lemma decode_encode_char:
  assumes "encode_char c = Some b"
  shows "decode (b @ r) = map_option ((#) c) (decode r)"
proof -
  consider "c < 0x80" | "0x80 \<le> c" "c < 0x800" | "0x800 \<le> c" "c < 0x10000" "\<not> surrogate c"
    | "0x10000 \<le> c" "c < 0x110000"
    using assms by (auto simp: encode_char_def split: if_splits)
  then show ?thesis
  proof cases
    case 1
    with assms have "b = [char_of c]" by (simp add: encode_char_def)
    then show ?thesis using decode_1 [OF 1] by simp
  next
    case 2
    with assms have "b = [char_of (0xC0 + c div 0x40), char_of (0x80 + c mod 0x40)]"
      by (simp add: encode_char_def)
    then show ?thesis using decode_2 [OF 2] by simp
  next
    case 3
    with assms have "b = [char_of (0xE0 + c div 0x1000), char_of (0x80 + c div 0x40 mod 0x40),
                          char_of (0x80 + c mod 0x40)]"
      by (simp add: encode_char_def)
    then show ?thesis using decode_3 [OF 3] by simp
  next
    case 4
    with assms have "b = [char_of (0xF0 + c div 0x40000), char_of (0x80 + c div 0x1000 mod 0x40),
                          char_of (0x80 + c div 0x40 mod 0x40), char_of (0x80 + c mod 0x40)]"
      by (simp add: encode_char_def)
    then show ?thesis using decode_4 [OF 4] by simp
  qed
qed

lemma decode_encode:
  assumes "encode s = Some b"
  shows "decode b = Some s"
  using assms
proof (induction s arbitrary: b)
  case Nil
  then show ?case by simp
next
  case (Cons c s)
  from Cons.prems obtain b1 b2 where b: "encode_char c = Some b1" "encode s = Some b2" "b = b1 @ b2"
    by (auto split: option.splits)
  from Cons.IH [OF b(2)] decode_encode_char [OF b(1), of b2] b(3) show ?case by simp
qed

text \<open>ASCII text is its own encoding.\<close>

lemma encode_ustr:
  assumes "list_all (\<lambda>c. (of_char c :: nat) < 0x80) s"
  shows "encode (ustr s) = Some s"
  using assms by (induction s) (simp_all add: ustr_def encode_char_def)

lemma decode_ascii:
  assumes "list_all (\<lambda>c. (of_char c :: nat) < 0x80) s"
  shows "decode s = Some (ustr s)"
  using assms by (induction s) (simp_all add: ustr_def)

text \<open>The cipher of the instances keeps the contract of an authenticated cipher.\<close>

lemma sample_decrypt_encrypt: "sample_decrypt key (sample_encrypt key data) = Some data"
  by (induction key) simp_all

lemma sample_decrypt_foreign:
  assumes "key' \<noteq> key"
  shows "sample_decrypt key' (sample_encrypt key data) = None"
  using assms
proof (induction key arbitrary: key')
  case Nil
  then show ?case by (cases key'; cases data) simp_all
next
  case (Cons c key)
  show ?case
  proof (cases key')
    case Nil
    then show ?thesis by simp
  next
    case (Cons c' rest)
    with Cons.prems Cons.IH [of rest] show ?thesis by auto
  qed
qed

section \<open>Account ids\<close>

lemma decimal_digit: "n < 10 \<Longrightarrow> decimal n = [''0123456789'' ! n]"
  by (simp add: decimal.simps)

lemma format_03d_small:
  "format_03d (Suc 0) = ''001''" "format_03d (Suc (Suc 0)) = ''002''"
  by (simp_all add: format_03d_def decimal_digit numeral_2_eq_2)

text \<open>
  C10. The id that \<^verbatim>\<open>add_account\<close> generates is not fresh. From an unlocked, empty registry:
  adding two accounts gives \<^verbatim>\<open>acc_001\<close> and \<^verbatim>\<open>acc_002\<close>; after \<^verbatim>\<open>acc_001\<close> is removed, the
  next \<^verbatim>\<open>add_account\<close> returns \<^verbatim>\<open>acc_002\<close> again, the id of the account still stored;
  the new record takes its place and the number of stored accounts stays one.
\<close>

theorem add_account_reuses_id:
  "\<exists>m1 m2 m3 m4.
     add_account cr t fresh_manager ''13800138000'' (ustr ''pw-one'') [] [] = Inr (m1, ''acc_001'')
   \<and> add_account cr t m1 ''13900139000'' (ustr ''pw-two'') [] [] = Inr (m2, ''acc_002'')
   \<and> remove_account m2 ''acc_001'' = (m3, True)
   \<and> map fst (accounts m3) = [''acc_002'']
   \<and> map (username \<circ> snd) (accounts m3) = [''13900139000'']
   \<and> add_account cr t m3 ''13700137000'' (ustr ''pw-three'') [] [] = Inr (m4, ''acc_002'')
   \<and> length (accounts m4) = length (accounts m3)
   \<and> map (username \<circ> snd) (accounts m4) = [''13700137000'']"
proof -
  define m1 where "m1 = fst (projr (add_account cr t fresh_manager ''13800138000'' (ustr ''pw-one'') [] []))"
  define m2 where "m2 = fst (projr (add_account cr t m1 ''13900139000'' (ustr ''pw-two'') [] []))"
  define m3 where "m3 = fst (remove_account m2 ''acc_001'')"
  define m4 where "m4 = fst (projr (add_account cr t m3 ''13700137000'' (ustr ''pw-three'') [] []))"
  note defs = add_account_def remove_account_def fresh_manager_def encrypt_def save_accounts_def
    create_def dict_del_def format_03d_small Let_def encode_ustr
  have s1: "add_account cr t fresh_manager ''13800138000'' (ustr ''pw-one'') [] [] = Inr (m1, ''acc_001'')"
    and k1: "master_password_set m1" "cipher m1 = Some ''key''"
    and a1: "map fst (accounts m1) = [''acc_001'']" "map (username \<circ> snd) (accounts m1) = [''13800138000'']"
    unfolding m1_def by (simp_all add: defs)
  obtain r1 where r1: "accounts m1 = [(''acc_001'', r1)]" "username r1 = ''13800138000''"
    using a1 by (cases "accounts m1") auto
  have s2: "add_account cr t m1 ''13900139000'' (ustr ''pw-two'') [] [] = Inr (m2, ''acc_002'')"
    and k2: "master_password_set m2" "cipher m2 = Some ''key''"
    and a2: "map fst (accounts m2) = [''acc_001'', ''acc_002'']"
            "map (username \<circ> snd) (accounts m2) = [''13800138000'', ''13900139000'']"
    unfolding m2_def using k1 r1 by (simp_all add: defs)
  obtain r2 where r2: "accounts m2 = [(''acc_001'', r1), (''acc_002'', r2)]" "username r2 = ''13900139000''"
    unfolding m2_def using k1 r1 by (simp add: defs)
  have s3: "remove_account m2 ''acc_001'' = (m3, True)"
    and k3: "master_password_set m3" "cipher m3 = Some ''key''"
    and a3: "accounts m3 = [(''acc_002'', r2)]"
    unfolding m3_def using k2 r2 by (simp_all add: defs)
  have s4: "add_account cr t m3 ''13700137000'' (ustr ''pw-three'') [] [] = Inr (m4, ''acc_002'')"
    and a4: "length (accounts m4) = 1" "map (username \<circ> snd) (accounts m4) = [''13700137000'']"
    unfolding m4_def using k3 a3 by (simp_all add: defs)
  from s1 s2 s3 s4 a3 a4 r2 show ?thesis
    by (intro exI [of _ m1] exI [of _ m2] exI [of _ m3] exI [of _ m4]) simp
qed


section \<open>Unlocking the vault\<close>

text \<open>
  C3. The claim: unlocking reports success only after a stored ciphertext was decrypted
  with the key of the supplied secret, so a wrong secret is reported as a failure once an
  encrypted record exists. \<^verbatim>\<open>setup_master_password\<close> calls \<^verbatim>\<open>_load_accounts\<close>, which
  reads the file and decrypts nothing: on a vault holding one record encrypted under
  \<^verbatim>\<open>master-secret\<close>, the secret \<^verbatim>\<open>wrong-secret\<close> is accepted whatever the cipher is, and
  with a cipher that rejects foreign keys the next \<^verbatim>\<open>get_password\<close> raises.
\<close>

theorem setup_master_password_accepts_wrong_secret:
  "(\<exists>m. setup_master_password cr False [ustr ''wrong-secret''] stored_vault = Inr (m, ustr ''wrong-secret'')
        \<and> master_password_set m \<and> map fst (accounts m) = [''acc_001''])
   \<and> (\<exists>m. setup_master_password sample_crypto False [ustr ''master-secret''] stored_vault
              = Inr (m, ustr ''master-secret'')
        \<and> get_password sample_crypto m ''acc_001'' = Inr (ustr ''hunter2''))
   \<and> (\<exists>m. setup_master_password sample_crypto False [ustr ''wrong-secret''] stored_vault
              = Inr (m, ustr ''wrong-secret'')
        \<and> get_password sample_crypto m ''acc_001'' = Inl ValueError)"
proof -
  have e: "encode (ustr ''wrong-secret'') = Some ''wrong-secret''"
    "encode (ustr ''master-secret'') = Some ''master-secret''"
    by (simp_all add: encode_ustr)
  have d: "decode ''hunter2'' = Some (ustr ''hunter2'')"
    by (simp add: decode_ascii del: decode.simps)
  show ?thesis
    by (simp add: setup_master_password_def stored_vault_def set_master_password_def
        load_accounts_def get_password_def decrypt_def sample_crypto_def sample_account_def
        Let_def e d del: encode.simps decode.simps)
qed

section \<open>Round trip of the vault\<close>

text \<open>
  The claim of C5 as stated, that \<^verbatim>\<open>decrypt(encrypt(s)) == s\<close> for every string:
  \<^verbatim>\<open>encrypt\<close> encodes the plaintext before the cipher sees it, and a \<^verbatim>\<open>str\<close> that holds
  a surrogate has no encoding. On the vault unlocked with its master secret the string
  of the one code point 0xD800 is not encrypted: \<^verbatim>\<open>UnicodeEncodeError\<close> leaves
  \<^verbatim>\<open>encrypt\<close>.
\<close>

theorem encrypt_lone_surrogate:
  "set_master_password sample_crypto (ustr ''master-secret'') stored_vault = Inr unlocked_vault
   \<and> encrypt sample_crypto unlocked_vault [0xD800] = Inl UnicodeEncodeError"
  by (simp add: set_master_password_def encode_ustr sample_crypto_def unlocked_vault_def
      stored_vault_def encrypt_def encode_char_def surrogate_def)

text \<open>
  C5, amended. The library is taken at its contract: a token that \<^verbatim>\<open>Fernet.encrypt\<close>
  made under a key decrypts to the data under that key, and is refused under every
  other key. Let a vault be unlocked with a master secret, \<open>same\<close> be any manager
  unlocked with that secret and the persisted salt, and \<open>foreign\<close> one unlocked with a
  secret whose derived key differs. Then for every string without a surrogate
  \<^verbatim>\<open>encrypt\<close> returns a ciphertext, \<^verbatim>\<open>decrypt\<close> returns the string from it in the vault
  and in \<open>same\<close>, and \<^verbatim>\<open>decrypt\<close> in \<open>foreign\<close> raises \<^verbatim>\<open>ValueError\<close>; for every
  string that holds a surrogate \<^verbatim>\<open>encrypt\<close> raises \<^verbatim>\<open>UnicodeEncodeError\<close>.
\<close>

theorem decrypt_encrypt:
  assumes round_trip: "\<And>k data. fernet_decrypt cr k (fernet_encrypt cr k data) = Some data"
    and refused: "\<And>k k' data. k' \<noteq> k \<Longrightarrow> fernet_decrypt cr k' (fernet_encrypt cr k data) = None"
    and vault: "set_master_password cr master m = Inr vault"
    and same: "set_master_password cr master m' = Inr same"
    and foreign: "set_master_password cr other m'' = Inr foreign"
    and keys: "cipher foreign \<noteq> cipher vault"
  shows "(list_all scalar_value plaintext \<longrightarrow>
            (\<exists>ciphertext. encrypt cr vault plaintext = Inr ciphertext
               \<and> decrypt cr vault ciphertext = Inr plaintext
               \<and> decrypt cr same ciphertext = Inr plaintext
               \<and> decrypt cr foreign ciphertext = Inl ValueError))
       \<and> (\<not> list_all scalar_value plaintext \<longrightarrow>
            encrypt cr vault plaintext = Inl UnicodeEncodeError)"
proof -
  from vault obtain b where b: "encode master = Some b" "cipher vault = Some (derive_key cr b)"
    by (auto simp: set_master_password_def split: option.splits)
  from same b(1) have s: "cipher same = Some (derive_key cr b)"
    by (auto simp: set_master_password_def split: option.splits)
  from foreign obtain b' where b': "cipher foreign = Some (derive_key cr b')"
    by (auto simp: set_master_password_def split: option.splits)
  from keys b(2) b' have k: "derive_key cr b' \<noteq> derive_key cr b" by simp
  have yes: "\<exists>ciphertext. encrypt cr vault plaintext = Inr ciphertext
               \<and> decrypt cr vault ciphertext = Inr plaintext
               \<and> decrypt cr same ciphertext = Inr plaintext
               \<and> decrypt cr foreign ciphertext = Inl ValueError"
    if "list_all scalar_value plaintext"
  proof -
    from that obtain data where data: "encode plaintext = Some data"
      using list_all_scalar_value_encode [of plaintext] by auto
    have d: "decode data = Some plaintext" by (rule decode_encode [OF data])
    have "encrypt cr vault plaintext = Inr (fernet_encrypt cr (derive_key cr b) data)"
      by (simp add: encrypt_def b(2) data)
    moreover have "decrypt cr vault (fernet_encrypt cr (derive_key cr b) data) = Inr plaintext"
      by (simp add: decrypt_def b(2) round_trip d)
    moreover have "decrypt cr same (fernet_encrypt cr (derive_key cr b) data) = Inr plaintext"
      by (simp add: decrypt_def s round_trip d)
    moreover have "decrypt cr foreign (fernet_encrypt cr (derive_key cr b) data) = Inl ValueError"
      by (simp add: decrypt_def b' refused [OF k])
    ultimately show ?thesis by blast
  qed
  have no: "encrypt cr vault plaintext = Inl UnicodeEncodeError"
    if "\<not> list_all scalar_value plaintext"
  proof -
    from that have "encode plaintext = None"
      using list_all_scalar_value_encode [of plaintext] by simp
    then show ?thesis by (simp add: encrypt_def b(2))
  qed
  from yes no show ?thesis by blast
qed

theorem decrypt_encrypt_witness:
  "set_master_password sample_crypto (ustr ''master-secret'') stored_vault = Inr unlocked_vault
   \<and> set_master_password sample_crypto (ustr ''wrong-secret'') stored_vault = Inr foreign_vault
   \<and> cipher foreign_vault \<noteq> cipher unlocked_vault
   \<and> list_all scalar_value secret_text
   \<and> (\<exists>ciphertext. encrypt sample_crypto unlocked_vault secret_text = Inr ciphertext
         \<and> decrypt sample_crypto unlocked_vault ciphertext = Inr secret_text
         \<and> decrypt sample_crypto foreign_vault ciphertext = Inl ValueError)
   \<and> encrypt sample_crypto unlocked_vault (ustr ''pw'' @ [0xDC00]) = Inl UnicodeEncodeError"
proof -
  have v: "set_master_password sample_crypto (ustr ''master-secret'') stored_vault = Inr unlocked_vault"
    and f: "set_master_password sample_crypto (ustr ''wrong-secret'') stored_vault = Inr foreign_vault"
    by (simp_all add: set_master_password_def encode_ustr sample_crypto_def unlocked_vault_def
        foreign_vault_def stored_vault_def)
  have k: "cipher foreign_vault \<noteq> cipher unlocked_vault"
    by (simp add: unlocked_vault_def foreign_vault_def)
  have r: "\<And>k data. fernet_decrypt sample_crypto k (fernet_encrypt sample_crypto k data) = Some data"
    by (simp add: sample_crypto_def sample_decrypt_encrypt)
  have n: "\<And>k k' data. k' \<noteq> k \<Longrightarrow>
      fernet_decrypt sample_crypto k' (fernet_encrypt sample_crypto k data) = None"
    by (simp add: sample_crypto_def sample_decrypt_foreign)
  have t: "list_all scalar_value secret_text"
    by (simp add: secret_text_def scalar_value_def surrogate_def)
  have u: "\<not> list_all scalar_value (ustr ''pw'' @ [0xDC00])"
    by (simp add: ustr_def scalar_value_def surrogate_def)
  from decrypt_encrypt [of sample_crypto, OF r n v v f k, of secret_text] t
  have one: "\<exists>ciphertext. encrypt sample_crypto unlocked_vault secret_text = Inr ciphertext
         \<and> decrypt sample_crypto unlocked_vault ciphertext = Inr secret_text
         \<and> decrypt sample_crypto foreign_vault ciphertext = Inl ValueError"
    by blast
  from decrypt_encrypt [of sample_crypto, OF r n v v f k, of "ustr ''pw'' @ [0xDC00]"] u
  have two: "encrypt sample_crypto unlocked_vault (ustr ''pw'' @ [0xDC00]) = Inl UnicodeEncodeError"
    by blast
  from v f k t one two show ?thesis by simp
qed

section \<open>Timestamp parsing\<close>




lemmas marker_defs =
  gang_gang_def fen_zhong_qian_def xiao_shi_qian_def tian_qian_def zuo_tian_def qian_tian_def

lemmas class_defs =
  ustr_def decimal_value_def decimal_zeros_def unicode_space_def int_space_def is_decimal_def
  any_value_def ascii_value_def

lemmas strptime_defs =
  date_formats_def strptime_def directive_def make_datetime_def days_in_month_def
  replace_year_def

lemmas calendar_defs =
  to_micro_def ymd2ord_def days_before_year_def days_before_month_def is_leap_def

lemma parse_timestamp_three_days_ago:
  assumes "datetime_min \<le> to_micro now - 3 * hours 24" and "to_micro now \<le> datetime_max"
    and "posix (to_micro now - 3 * hours 24) = Some u"
  shows "parse_timestamp posix now (Some (ustr ''3 '' @ tian_qian)) = Inr (to_ms u)"
  using assms
  by (simp add: parse_timestamp_def marker_defs class_defs ago_def py_int_def strip_def
      minus_timedelta_def timestamp_ms_def hours_def)

text \<open>
  C8. The claim: \<^verbatim>\<open>_parse_timestamp\<close> resolves a bare month-day text to the current year.
  \<^verbatim>\<open>strptime\<close> builds the date in its default year 1900 before the year is replaced, and
  1900 has no 29 February: \<^verbatim>\<open>02-29\<close> is read as unparseable under every clock, also in the
  leap year 2024, where \<^verbatim>\<open>02-28\<close> is resolved to 2024-02-28.
\<close>

theorem parse_timestamp_leap_day:
  "parse_timestamp posix now (Some (ustr ''02-29'')) = Inr 0
   \<and> days_in_month (year clock) 2 = 29
   \<and> parse_timestamp utc clock (Some (ustr ''02-28'')) = Inr 1709078400000"
  by (simp add: parse_timestamp_def marker_defs class_defs strptime_defs calendar_defs
      clock_def utc_def timestamp_ms_def to_ms_def)

section \<open>The time window\<close>









section \<open>End states of a run\<close>

lemma asdict_not_serializable: "\<not> json_serializable (asdict config)"
  by (simp add: asdict_def)

lemma save_results_raises:
  "save_results config t0 t1 t2 r persisted = (persisted, True)"
  by (simp add: save_results_def results_document_def asdict_not_serializable)

text \<open>
  C4. The claim: a run ends in COMPLETED, ERROR or STOPPED, and every end has flushed the
  accumulated results; a run of three keywords without an eligible account ends in
  COMPLETED with an empty but valid result file. \<^verbatim>\<open>save_results\<close> hands
  \<^verbatim>\<open>asdict(self.config)\<close> to \<^verbatim>\<open>json.dump\<close>, which raises \<^verbatim>\<open>TypeError\<close> at the member of
  \<^verbatim>\<open>MonitorPeriod\<close>: every call raises and leaves no valid document. So every run, of
  every configuration and in every environment, ends in ERROR with nothing valid
  written, the run of the claim's scenario among them.
\<close>

theorem run_always_error:
  "run config env = (ERROR, [])
   \<and> collected (quiet_env [NoAccount, NoAccount, NoAccount]) = (empty_results, None)
   \<and> run three_keywords (quiet_env [NoAccount, NoAccount, NoAccount]) = (ERROR, [])"
proof -
  have s: "save config env r persisted = (persisted, True)" for config env r persisted
    by (simp add: save_def save_results_raises)
  have e: "on_exception config env r [] = (ERROR, [])" for config env r
    by (simp add: on_exception_def s)
  have g: "run config env = (ERROR, [])" for config env
  proof (cases "collected env")
    case (Pair r sg)
    show ?thesis
    proof (cases sg)
      case None
      with Pair show ?thesis by (simp add: run_def finally_close_def s e)
    next
      case (Some x)
      with Pair show ?thesis by (cases x) (simp_all add: run_def finally_close_def s e)
    qed
  qed
  have c: "collected (quiet_env [NoAccount, NoAccount, NoAccount]) = (empty_results, None)"
    by (simp add: collected_def quiet_env_def)
  from g c show ?thesis by simp
qed

end
